theory Spec2Isabelle
  imports Complex_Main
begin

section \<open>Helpers of smm-matrix-node.js\<close>

subsection \<open>escapeHtml\<close>

text \<open>
  \<^verbatim>\<open>function escapeHtml(s) { return String(s || '').replace(/[&<>"']/g,
     c => ({'&':'&amp;','<':'&lt;','>':'&gt;','"':'&quot;','\'':'&#39;'}[c])); }\<close>

  The argument is a JavaScript value. The callers pass strings, \<open>null\<close> (an SQL NULL
  column) or \<open>undefined\<close> (a missing property); these are the values modelled.
  \<open>s || ''\<close> replaces a falsy value by the empty string, \<open>String\<close> of a string is
  the string itself. The double quote is \<open>CHR 0x22\<close>, the single quote \<open>CHR 0x27\<close>.
\<close>

datatype jsval = Undefined | Null | Str string

definition or_empty :: "jsval \<Rightarrow> string" where
  "or_empty v = (case v of Undefined \<Rightarrow> [] | Null \<Rightarrow> [] | Str s \<Rightarrow> s)"

text \<open>The character class of the regular expression.\<close>

definition html_special :: "char \<Rightarrow> bool" where
  "html_special c = (c \<in> set [CHR ''&'', CHR ''<'', CHR ''>'', CHR 0x22, CHR 0x27])"

text \<open>The object literal the callback indexes.\<close>

definition entity_table :: "(char \<times> string) list" where
  "entity_table =
     [(CHR ''&'', ''&amp;''), (CHR ''<'', ''&lt;''), (CHR ''>'', ''&gt;''),
      (CHR 0x22, ''&quot;''), (CHR 0x27, ''&#39;'')]"

text \<open>
  The callback \<open>c => table[c]\<close>: a key that is missing from the object yields
  \<open>undefined\<close>, which \<open>replace\<close> inserts as the text "undefined".
\<close>

definition entity_of :: "char \<Rightarrow> string" where
  "entity_of c = (case map_of entity_table c of Some e \<Rightarrow> e | None \<Rightarrow> ''undefined'')"

text \<open>
  \<open>replace\<close> with a global one-character class: every matching character is
  replaced by the callback's result, every other character is kept.
\<close>

definition replace_special :: "string \<Rightarrow> string" where
  "replace_special s = concat (map (\<lambda>c. if html_special c then entity_of c else [c]) s)"

definition escapeHtml :: "jsval \<Rightarrow> string" where
  "escapeHtml v = replace_special (or_empty v)"

text \<open>
  What the claim about \<open>escapeHtml\<close> promises of an output, as a recogniser: the text is
  a sequence of characters outside the five, and of the five entities. After an ampersand
  one of the entity tails must follow.
\<close>

definition entity_tails :: "string list" where
  "entity_tails = [''amp;'', ''lt;'', ''gt;'', ''quot;'', ''#39;'']"

function entity_text :: "string \<Rightarrow> bool" where
  "entity_text [] = True"
| "entity_text (c # cs) =
     (if c = CHR ''&''
      then (\<exists>e \<in> set entity_tails. take (length e) cs = e \<and> entity_text (drop (length e) cs))
      else \<not> html_special c \<and> entity_text cs)"
  by pat_completeness auto
termination
  by (relation "measure length") auto

subsection \<open>JavaScript values of the request\<close>

text \<open>
  A form field, a route parameter or a header is a string or is missing
  (\<open>undefined\<close>): \<open>string option\<close>. \<open>x || dflt\<close> on such a value takes the default
  when the value is missing or the empty string.
\<close>

definition or_else :: "string option \<Rightarrow> string \<Rightarrow> string" where
  "or_else x dflt = (case x of None \<Rightarrow> dflt | Some s \<Rightarrow> if s = [] then dflt else s)"

definition falsy :: "string option \<Rightarrow> bool" where
  "falsy x = (case x of None \<Rightarrow> True | Some s \<Rightarrow> s = [])"

text \<open>\<open>String(x)\<close> of a string or of \<open>undefined\<close>.\<close>

definition String_of :: "string option \<Rightarrow> string" where
  "String_of x = (case x of None \<Rightarrow> ''undefined'' | Some s \<Rightarrow> s)"

text \<open>
  \<open>Number(x)\<close> yields a double. The model takes the number itself as the handler's
  input: a real, an infinity, or \<open>NaN\<close> (what \<open>Number\<close> gives for text that is no number,
  such as \<open>Number('abc')\<close>, and for \<open>undefined\<close>). Rounding of doubles is not modelled.
\<close>

datatype jsnum = Val real | PosInf | NegInf | NaN

definition truthy :: "jsnum \<Rightarrow> bool" where
  "truthy n = (case n of Val r \<Rightarrow> r \<noteq> 0 | NaN \<Rightarrow> False | PosInf \<Rightarrow> True | NegInf \<Rightarrow> True)"

text \<open>\<open>Math.max(a, b)\<close>: \<open>NaN\<close> when an argument is \<open>NaN\<close>.\<close>

fun Math_max :: "jsnum \<Rightarrow> jsnum \<Rightarrow> jsnum" where
  "Math_max NaN b = NaN"
| "Math_max a NaN = NaN"
| "Math_max PosInf b = PosInf"
| "Math_max a PosInf = PosInf"
| "Math_max NegInf b = b"
| "Math_max a NegInf = a"
| "Math_max (Val a) (Val b) = Val (max a b)"

text \<open>
  \<open>Number(req.body.f || 0)\<close>: the field is given as \<open>None\<close> when it is missing or
  empty (then the number is 0), and as \<open>Some n\<close> with \<open>n\<close> the value \<open>Number\<close> gives
  its text otherwise.
\<close>

definition number_or_zero :: "jsnum option \<Rightarrow> jsnum" where
  "number_or_zero x = (case x of None \<Rightarrow> Val 0 | Some n \<Rightarrow> n)"

text \<open>
  A bound number compared with an integer column (\<open>WHERE id=?\<close>): the row matches when
  the number is that integer. better-sqlite3 binds \<open>NaN\<close> as NULL, and NULL equals nothing.
\<close>

definition id_is :: "jsnum \<Rightarrow> int \<Rightarrow> bool" where
  "id_is n k = (n = Val (of_int k))"

text \<open>A bound number compared with a column that holds a bound number.\<close>

definition sql_eq :: "jsnum \<Rightarrow> jsnum \<Rightarrow> bool" where
  "sql_eq a b = (a \<noteq> NaN \<and> a = b)"

text \<open>\<open>s.includes(t)\<close>: \<open>t\<close> occurs in \<open>s\<close>.\<close>

fun str_includes :: "string \<Rightarrow> string \<Rightarrow> bool" where
  "str_includes [] t = (t = [])"
| "str_includes (c # cs) t = (take (length t) (c # cs) = t \<or> str_includes cs t)"

text \<open>
  Functions of the platform that the handlers call: \<open>crypto\<close>'s SHA-256 digest in hex,
  \<open>String.prototype.toLowerCase\<close> and \<open>String.prototype.trim\<close>. They are parameters of
  the model.
\<close>

record platform =
  sha256 :: "string \<Rightarrow> string"
  toLowerCase :: "string \<Rightarrow> string"
  trim :: "string \<Rightarrow> string"

section \<open>The store\<close>

text \<open>
  The tables of \<open>initDb\<close>, each a list of rows in insertion order. The columns are those
  the statements of the routes write or compare; \<open>created_at\<close> is kept for posts, where
  the page prints it, and left out elsewhere, as are the columns of \<open>statuses\<close> that only
  ever hold their defaults. A nullable column that some statement leaves NULL is an
  \<open>option\<close>. The \<open>reviews\<close> table is only read.
\<close>

record user =
  u_id :: int
  u_email :: string
  u_password_hash :: string
  u_name :: string
  u_role :: string
  u_instagram :: "string option"
  u_unsubscribed :: int

record post =
  po_id :: int
  po_title :: string
  po_author :: string
  po_image :: string
  po_excerpt :: string
  po_body :: string
  po_views :: int
  po_created_at :: string

record plan =
  pl_id :: int
  pl_name :: string
  pl_price_usd :: real
  pl_features :: string

record order_row =
  o_id :: int
  o_user_id :: int
  o_plan_id :: int
  o_ig_username :: string
  o_notes :: string
  o_status :: string

record ticket =
  t_id :: int
  t_user_id :: "int option"
  t_email :: string
  t_instagram :: "string option"
  t_subject :: "string option"
  t_message :: "string option"

text \<open>
  \<open>metrics\<close> rows hold the numbers the handlers bind, whatever they are; \<open>NaN\<close> in a
  column stands for the NULL it is stored as.
\<close>

record metric =
  m_id :: int
  m_user_id :: jsnum
  m_likes :: jsnum
  m_follows :: jsnum

record target =
  tg_id :: int
  tg_user_id :: int
  tg_niche :: string
  tg_competitors :: string
  tg_hashtags :: string
  tg_geo :: string
  tg_notes :: string

record status_row =
  st_id :: int
  st_user_id :: int

record subscriber =
  sb_id :: int
  sb_email :: string

text \<open>
  The database: the tables and, for each table with \<open>AUTOINCREMENT\<close> that a route
  inserts into, the largest row id ever handed out (\<open>sqlite_sequence\<close>).
\<close>

record db =
  users :: "user list"
  users_seq :: int
  posts :: "post list"
  posts_seq :: int
  plans :: "plan list"
  orders :: "order_row list"
  orders_seq :: int
  tickets :: "ticket list"
  tickets_seq :: int
  metrics :: "metric list"
  metrics_seq :: int
  targets :: "target list"
  targets_seq :: int
  statuses :: "status_row list"
  statuses_seq :: int
  subscribers :: "subscriber list"
  subscribers_seq :: int

text \<open>
  \<open>INTEGER PRIMARY KEY AUTOINCREMENT\<close>: the new id is one more than the largest id the
  table has ever had.
\<close>

definition autoinc :: "int \<Rightarrow> int list \<Rightarrow> int" where
  "autoinc seq ids = max seq (fold max ids 0) + 1"

subsection \<open>Statements\<close>

text \<open>
  \<open>INSERT INTO users(email,password_hash,name,instagram,role)\<close>. \<open>email\<close> is \<open>UNIQUE\<close>:
  when the address is taken the statement throws, which is \<open>None\<close>.
\<close>

definition insert_user ::
  "db \<Rightarrow> string \<Rightarrow> string \<Rightarrow> string \<Rightarrow> string option \<Rightarrow> string \<Rightarrow> db option" where
  "insert_user d email hash name instagram role =
     (if email \<in> set (map u_email (users d)) then None
      else let i = autoinc (users_seq d) (map u_id (users d)) in
        Some (d\<lparr>users := users d @
                 [\<lparr>u_id = i, u_email = email, u_password_hash = hash, u_name = name,
                   u_role = role, u_instagram = instagram, u_unsubscribed = 0\<rparr>],
               users_seq := i\<rparr>))"

text \<open>
  \<open>INSERT OR IGNORE INTO statuses(user_id)\<close>. \<open>user_id\<close> is \<open>UNIQUE\<close>: when a row
  of that user exists, nothing is inserted.
\<close>

definition insert_status :: "db \<Rightarrow> int \<Rightarrow> db" where
  "insert_status d uid =
     (if uid \<in> set (map st_user_id (statuses d)) then d
      else let i = autoinc (statuses_seq d) (map st_id (statuses d)) in
        d\<lparr>statuses := statuses d @ [\<lparr>st_id = i, st_user_id = uid\<rparr>], statuses_seq := i\<rparr>)"

text \<open>
  \<open>INSERT OR IGNORE INTO targets(...)\<close>: the table has no constraint but its key, so
  the row is always inserted.
\<close>

definition insert_target ::
  "db \<Rightarrow> int \<Rightarrow> string \<Rightarrow> string \<Rightarrow> string \<Rightarrow> string \<Rightarrow> string \<Rightarrow> db" where
  "insert_target d uid niche competitors hashtags geo notes =
     (let i = autoinc (targets_seq d) (map tg_id (targets d)) in
        d\<lparr>targets := targets d @
             [\<lparr>tg_id = i, tg_user_id = uid, tg_niche = niche, tg_competitors = competitors,
               tg_hashtags = hashtags, tg_geo = geo, tg_notes = notes\<rparr>],
          targets_seq := i\<rparr>)"

text \<open>\<open>INSERT [OR IGNORE] INTO metrics(user_id,likes,follows)\<close>: always inserted.\<close>

definition insert_metric :: "db \<Rightarrow> jsnum \<Rightarrow> jsnum \<Rightarrow> jsnum \<Rightarrow> db" where
  "insert_metric d uid likes follows =
     (let i = autoinc (metrics_seq d) (map m_id (metrics d)) in
        d\<lparr>metrics := metrics d @
             [\<lparr>m_id = i, m_user_id = uid, m_likes = likes, m_follows = follows\<rparr>],
          metrics_seq := i\<rparr>)"

text \<open>\<open>INSERT INTO orders(user_id,plan_id,ig_username,notes,status)\<close>.\<close>

definition insert_order :: "db \<Rightarrow> int \<Rightarrow> int \<Rightarrow> string \<Rightarrow> string \<Rightarrow> string \<Rightarrow> db" where
  "insert_order d uid pid ig notes st =
     (let i = autoinc (orders_seq d) (map o_id (orders d)) in
        d\<lparr>orders := orders d @
             [\<lparr>o_id = i, o_user_id = uid, o_plan_id = pid, o_ig_username = ig,
               o_notes = notes, o_status = st\<rparr>],
          orders_seq := i\<rparr>)"

text \<open>\<open>INSERT INTO tickets(user_id,email,instagram,subject,message)\<close>.\<close>

definition insert_ticket ::
  "db \<Rightarrow> int option \<Rightarrow> string \<Rightarrow> string option \<Rightarrow> string option \<Rightarrow> string option \<Rightarrow> db" where
  "insert_ticket d uid email instagram subject message =
     (let i = autoinc (tickets_seq d) (map t_id (tickets d)) in
        d\<lparr>tickets := tickets d @
             [\<lparr>t_id = i, t_user_id = uid, t_email = email, t_instagram = instagram,
               t_subject = subject, t_message = message\<rparr>],
          tickets_seq := i\<rparr>)"

text \<open>\<open>INSERT INTO subscribers(email)\<close>.\<close>

definition insert_subscriber :: "db \<Rightarrow> string \<Rightarrow> db" where
  "insert_subscriber d email =
     (let i = autoinc (subscribers_seq d) (map sb_id (subscribers d)) in
        d\<lparr>subscribers := subscribers d @ [\<lparr>sb_id = i, sb_email = email\<rparr>],
          subscribers_seq := i\<rparr>)"

text \<open>
  \<open>INSERT INTO posts(title,author,image,excerpt,body)\<close>; \<open>views\<close> takes its default 0
  and \<open>created_at\<close> the store's clock reading, a parameter.
\<close>

definition insert_post ::
  "db \<Rightarrow> string \<Rightarrow> string \<Rightarrow> string \<Rightarrow> string \<Rightarrow> string \<Rightarrow> string \<Rightarrow> db" where
  "insert_post d title author img excerpt body created =
     (let i = autoinc (posts_seq d) (map po_id (posts d)) in
        d\<lparr>posts := posts d @
             [\<lparr>po_id = i, po_title = title, po_author = author, po_image = img,
               po_excerpt = excerpt, po_body = body, po_views = 0, po_created_at = created\<rparr>],
          posts_seq := i\<rparr>)"

section \<open>Sessions, requests and responses\<close>

text \<open>
  The cookie session: \<open>uid\<close>, \<open>failed_login\<close> and \<open>login_locked_until\<close>, each missing
  (\<open>undefined\<close> or \<open>null\<close>) or a number. \<open>req.session = null\<close> is the empty session.
\<close>

record session =
  uid :: "int option"
  failed_login :: "int option"
  login_locked_until :: "int option"

definition empty_session :: session where
  "empty_session = \<lparr>uid = None, failed_login = None, login_locked_until = None\<rparr>"

text \<open>
  What the handlers read of a request besides their own fields: the session, the
  \<open>Accept\<close> and \<open>Referer\<close> headers, and \<open>req.user\<close>, which the middleware
  \<open>app.use((req,res,next)=>{ req.user = authed(req); next(); })\<close> sets before any route.
\<close>

record req =
  session :: session
  accept :: "string option"
  referer :: "string option"
  req_user :: "user option"

datatype login_error = Too_many_attempts int | Invalid_credentials

text \<open>The aggregates of the admin dashboard, \<open>stats\<close> in \<open>app.get('/dashboard')\<close>.\<close>

record stats =
  stat_users :: nat
  pendingOrders :: nat
  declinedCount :: nat
  stat_subscribers :: nat
  totalAccounting :: real

text \<open>
  The pages the modelled routes send, each with the values its template prints.
  \<open>BlogPage\<close> carries what \<open>BlogView\<close> and \<open>layout\<close> interpolate: the signed-in user, the
  post's title, author, creation time, image and body. \<open>AdminDashboardPage\<close> carries
  the aggregates (the lists of recent posts and orders are left out), \<open>PerformancePage\<close>
  the rows of the chart and the escaped address of the heading.
\<close>

datatype page =
    LoginPage "user option" "login_error option"
  | SignupPage "user option" "string option"
  | BlogPage "user option" string string string string string
  | AdminDashboardPage user stats
  | PerformancePage user "metric list" string

datatype response = Redirect string | Status nat string | Send page

type_synonym outcome = "response \<times> session \<times> db"

definition LoginView :: "user option \<Rightarrow> login_error option \<Rightarrow> page" where
  "LoginView user err = LoginPage user err"

definition SignupView :: "user option \<Rightarrow> string option \<Rightarrow> page" where
  "SignupView user err = SignupPage user err"

text \<open>
  \<open>BlogView({ user, post })\<close> prints \<open>post.title\<close>, \<open>post.author || 'Unknown'\<close>, the date
  of \<open>post.created_at\<close>, \<open>post.image\<close> and the rendered \<open>post.body\<close>. It does not print
  \<open>post.views\<close>.
\<close>

definition BlogView :: "user option \<Rightarrow> post \<Rightarrow> page" where
  "BlogView user p =
     BlogPage user (po_title p) (if po_author p = [] then ''Unknown'' else po_author p)
       (po_created_at p) (po_image p) (po_body p)"

section \<open>Access control\<close>

text \<open>
  \<^verbatim>\<open>function authed(req) {
    return req.session && req.session.uid
      ? db.prepare('SELECT * FROM users WHERE id=?').get(req.session.uid) : null; }\<close>
\<close>

definition authed :: "db \<Rightarrow> session \<Rightarrow> user option" where
  "authed d s =
     (case uid s of
        None \<Rightarrow> None
      | Some k \<Rightarrow> if k = 0 then None else find (\<lambda>u. u_id u = k) (users d))"

definition middleware :: "db \<Rightarrow> req \<Rightarrow> req" where
  "middleware d r = r\<lparr>req_user := authed d (session r)\<rparr>"

text \<open>
  \<^verbatim>\<open>function requireRole(req, res, roles) {
    const u = authed(req);
    if (!u || !roles.includes(u.role)) {
      if (req.headers.accept && req.headers.accept.includes('text/html'))
        return res.redirect('/login');
      return res.status(403).send('Forbidden');
    }
    return u; }\<close>

  \<open>Inl\<close> is the response sent, after which \<open>res.headersSent\<close> holds and every caller
  returns at once (\<open>if (!me || res.headersSent) return;\<close>); \<open>Inr\<close> is the principal.
\<close>

definition accepts_html :: "req \<Rightarrow> bool" where
  "accepts_html r =
     (case accept r of None \<Rightarrow> False | Some a \<Rightarrow> a \<noteq> [] \<and> str_includes a ''text/html'')"

definition requireRole :: "db \<Rightarrow> req \<Rightarrow> string list \<Rightarrow> response + user" where
  "requireRole d r roles =
     (case authed d (session r) of
        None \<Rightarrow>
          Inl (if accepts_html r then Redirect ''/login'' else Status 403 ''Forbidden'')
      | Some u \<Rightarrow>
          if u_role u \<notin> set roles
          then Inl (if accepts_html r then Redirect ''/login'' else Status 403 ''Forbidden'')
          else Inr u)"

section \<open>Routes\<close>

subsection \<open>Blog\<close>

text \<open>
  \<^verbatim>\<open>app.get('/blog/:id', (req,res)=>{
    const id = Number(req.params.id);
    db.prepare('UPDATE posts SET views = views + 1 WHERE id=?').run(id);
    const post = db.prepare('SELECT * FROM posts WHERE id=?').get(id);
    if (!post) return res.status(404).send('Not found');
    res.send(BlogView({ user:req.user, post })); });\<close>
\<close>

definition blog_get :: "db \<Rightarrow> req \<Rightarrow> jsnum \<Rightarrow> outcome" where
  "blog_get d r idn =
     (let d1 = d\<lparr>posts :=
                  map (\<lambda>p. if id_is idn (po_id p) then p\<lparr>po_views := po_views p + 1\<rparr> else p)
                    (posts d)\<rparr>
      in case find (\<lambda>p. id_is idn (po_id p)) (posts d1) of
           None \<Rightarrow> (Status 404 ''Not found'', session r, d1)
         | Some p \<Rightarrow> (Send (BlogView (req_user r) p), session r, d1))"

subsection \<open>Login, logout, signup\<close>

text \<open>
  \<^verbatim>\<open>app.post('/login', (req,res)=>{
    const lockedUntil = req.session.login_locked_until;
    if (lockedUntil && Date.now() < lockedUntil) {
      const waitSec = Math.ceil((lockedUntil - Date.now()) / 1000);
      return res.send(LoginView({ user:req.user, error:`Too many attempts ...` }));
    }
    const { email, password } = req.body;
    const row = db.prepare('SELECT * FROM users WHERE email=?')
                  .get(String(email||'').toLowerCase());
    if (row && row.password_hash === sha256(password)) {
      req.session.failed_login = 0;
      req.session.login_locked_until = null;
      req.session.uid = row.id;
      if (row.role === 'admin') return res.redirect('/dashboard');
      if (row.role === 'staff') return res.redirect('/staff');
      return res.redirect('/');
    }
    req.session.failed_login = (req.session.failed_login || 0) + 1;
    if (req.session.failed_login >= 6) {
      req.session.login_locked_until = Date.now() + 5 * 60 * 1000;
    }
    return res.send(LoginView({ user:req.user, error:'Invalid credentials' })); });\<close>

  The clock is read in the gate (\<open>t_gate\<close>) and once more afterwards (\<open>t_now\<close>), for
  the wait time or for the new lockout; both readings are parameters, in milliseconds.
\<close>

definition lock_in_force :: "session \<Rightarrow> int \<Rightarrow> int option" where
  "lock_in_force s t_gate =
     (case login_locked_until s of
        None \<Rightarrow> None
      | Some l \<Rightarrow> if l \<noteq> 0 \<and> t_gate < l then Some l else None)"

definition waitSec :: "int \<Rightarrow> int \<Rightarrow> int" where
  "waitSec lockedUntil t_now = \<lceil>real_of_int (lockedUntil - t_now) / 1000\<rceil>"

definition credentials_row ::
  "platform \<Rightarrow> db \<Rightarrow> string option \<Rightarrow> string option \<Rightarrow> user option" where
  "credentials_row pf d email password =
     (case find (\<lambda>u. u_email u = toLowerCase pf (or_else email [])) (users d) of
        None \<Rightarrow> None
      | Some row \<Rightarrow>
          if u_password_hash row = sha256 pf (String_of password) then Some row else None)"

definition login_post ::
  "platform \<Rightarrow> int \<Rightarrow> int \<Rightarrow> db \<Rightarrow> req \<Rightarrow> string option \<Rightarrow> string option \<Rightarrow> outcome" where
  "login_post pf t_gate t_now d r email password =
     (case lock_in_force (session r) t_gate of
        Some l \<Rightarrow>
          (Send (LoginView (req_user r) (Some (Too_many_attempts (waitSec l t_now)))),
           session r, d)
      | None \<Rightarrow>
          (case credentials_row pf d email password of
             Some row \<Rightarrow>
               (Redirect (if u_role row = ''admin'' then ''/dashboard''
                          else if u_role row = ''staff'' then ''/staff'' else ''/''),
                (session r)\<lparr>failed_login := Some 0, login_locked_until := None,
                             uid := Some (u_id row)\<rparr>,
                d)
           | None \<Rightarrow>
               (let n = (case failed_login (session r) of None \<Rightarrow> 0 | Some k \<Rightarrow> k) + 1;
                    s1 = (session r)\<lparr>failed_login := Some n\<rparr>;
                    s2 = (if n \<ge> 6 then s1\<lparr>login_locked_until := Some (t_now + 5 * 60 * 1000)\<rparr>
                          else s1)
                in (Send (LoginView (req_user r) (Some Invalid_credentials)), s2, d))))"

text \<open>\<^verbatim>\<open>app.get('/logout', (req,res)=>{ req.session = null; res.redirect('/'); });\<close>\<close>

definition logout_get :: "db \<Rightarrow> req \<Rightarrow> outcome" where
  "logout_get d r = (Redirect ''/'', empty_session, d)"

text \<open>
  \<^verbatim>\<open>app.post('/signup', (req,res)=>{
    const { name, email, instagram, password } = req.body;
    if (!email || !password)
      return res.send(SignupView({ user:req.user, error:'Email & password required' }));
    try {
      db.prepare('INSERT INTO users(email,password_hash,name,instagram,role) VALUES (?,?,?,?,?)')
        .run(String(email).toLowerCase(), sha256(password), name||'', instagram||'', 'user');
      const uid = db.prepare('SELECT id FROM users WHERE email=?')
                    .get(String(email).toLowerCase()).id;
      db.prepare('INSERT OR IGNORE INTO statuses(user_id) VALUES(?)').run(uid);
      db.prepare('INSERT OR IGNORE INTO targets(...) VALUES(?,?,?,?,?,?)').run(uid,'','','','','');
      db.prepare('INSERT OR IGNORE INTO metrics(user_id,likes,follows) VALUES (?,?,?)').run(uid,10,8);
      req.session.uid = uid;
      res.redirect('/');
    } catch(e) {
      return res.send(SignupView({ user:req.user, error:'Email already exists' }));
    } });\<close>

  The \<open>catch\<close> takes the exception of the first \<open>INSERT\<close> (the address is taken) and
  the \<open>TypeError\<close> of \<open>.id\<close> on a row that was not found.
\<close>

definition signup_post ::
  "platform \<Rightarrow> db \<Rightarrow> req \<Rightarrow> string option \<Rightarrow> string option \<Rightarrow> string option \<Rightarrow>
     string option \<Rightarrow> outcome" where
  "signup_post pf d r name email instagram password =
     (if falsy email \<or> falsy password
      then (Send (SignupView (req_user r) (Some ''Email & password required'')), session r, d)
      else
        (case insert_user d (toLowerCase pf (String_of email)) (sha256 pf (String_of password))
                (or_else name []) (Some (or_else instagram [])) ''user'' of
           None \<Rightarrow> (Send (SignupView (req_user r) (Some ''Email already exists'')), session r, d)
         | Some d1 \<Rightarrow>
             (case find (\<lambda>u. u_email u = toLowerCase pf (String_of email)) (users d1) of
                None \<Rightarrow>
                  (Send (SignupView (req_user r) (Some ''Email already exists'')), session r, d1)
              | Some row \<Rightarrow>
                  (let d2 = insert_status d1 (u_id row);
                       d3 = insert_target d2 (u_id row) [] [] [] [] [];
                       d4 = insert_metric d3 (Val (of_int (u_id row))) (Val 10) (Val 8)
                   in (Redirect ''/'', (session r)\<lparr>uid := Some (u_id row)\<rparr>, d4)))))"

subsection \<open>Contact, ticket, subscribe\<close>

text \<open>
  \<^verbatim>\<open>app.post('/contact_submit', (req,res)=>{
    const { name, email, instagram, message } = req.body;
    db.prepare('INSERT INTO tickets(user_id,email,instagram,subject,message) VALUES (?,?,?,?,?)')
      .run(null, email||'', instagram||'', `Contact: ${name||'Guest'}`, message||'');
    res.redirect('/contact'); });
  app.post('/ticket', (req,res)=>{
    if (!req.user) return res.status(403).send('Forbidden');
    const { subject, message } = req.body;
    db.prepare('INSERT INTO tickets(...) VALUES (?,?,?,?,?)')
      .run(req.user.id, req.user.email, req.user.instagram, subject, message);
    res.redirect(req.get('Referer')||'/'); });
  app.post('/subscribe', (req,res)=>{
    const email = String(req.body.email||'').trim();
    if (email) {
      try { db.prepare('INSERT INTO subscribers(email) VALUES (?)').run(email); } catch(e){}
    }
    res.redirect(req.get('Referer')||'/'); });\<close>
\<close>

definition contact_submit ::
  "db \<Rightarrow> req \<Rightarrow> string option \<Rightarrow> string option \<Rightarrow> string option \<Rightarrow> string option \<Rightarrow>
     outcome" where
  "contact_submit d r name email instagram message =
     (Redirect ''/contact'', session r,
      insert_ticket d None (or_else email []) (Some (or_else instagram []))
        (Some (''Contact: '' @ or_else name ''Guest'')) (Some (or_else message [])))"

definition ticket_post :: "db \<Rightarrow> req \<Rightarrow> string option \<Rightarrow> string option \<Rightarrow> outcome" where
  "ticket_post d r subject message =
     (case req_user r of
        None \<Rightarrow> (Status 403 ''Forbidden'', session r, d)
      | Some u \<Rightarrow>
          (Redirect (or_else (referer r) ''/''), session r,
           insert_ticket d (Some (u_id u)) (u_email u) (u_instagram u) subject message))"

definition subscribe_post :: "platform \<Rightarrow> db \<Rightarrow> req \<Rightarrow> string option \<Rightarrow> outcome" where
  "subscribe_post pf d r email =
     (let e = trim pf (or_else email []) in
      (Redirect (or_else (referer r) ''/''), session r,
       if e \<noteq> [] then insert_subscriber d e else d))"

subsection \<open>Checkout\<close>

text \<open>
  The sources hold two copies of the application with the same routes, except that only
  the second has the checkout routes; this one is taken from there.

  \<^verbatim>\<open>app.post('/checkout', (req,res)=>{
    if (!req.user) return res.redirect('/login');
    const plan = db.prepare('SELECT * FROM plans WHERE id=?').get(Number(req.query.plan_id));
    if (!plan) return res.status(404).send('Plan not found');
    // pretend payment succeeded and mark as 'paid' -- in real app hook payment gateway
    db.prepare('INSERT INTO orders(user_id,plan_id,ig_username,notes,status) VALUES (?,?,?,?,?)')
      .run(req.user.id, plan.id, req.body.ig_username||'', req.body.notes||'', 'paid');
    res.redirect(req.user.role==='admin'?'/dashboard':'/'); });\<close>
\<close>

definition checkout_post :: "db \<Rightarrow> req \<Rightarrow> jsnum \<Rightarrow> string option \<Rightarrow> string option \<Rightarrow> outcome" where
  "checkout_post d r plan_id ig_username notes =
     (case req_user r of
        None \<Rightarrow> (Redirect ''/login'', session r, d)
      | Some u \<Rightarrow>
          (case find (\<lambda>p. id_is plan_id (pl_id p)) (plans d) of
             None \<Rightarrow> (Status 404 ''Plan not found'', session r, d)
           | Some p \<Rightarrow>
               (Redirect (if u_role u = ''admin'' then ''/dashboard'' else ''/''), session r,
                insert_order d (u_id u) (pl_id p) (or_else ig_username []) (or_else notes [])
                  ''paid'')))"

subsection \<open>Admin routes\<close>

text \<open>
  \<^verbatim>\<open>app.get('/dashboard', (req,res)=>{
    const me = requireRole(req,res,['admin']); if (!me || res.headersSent) return;
    const stats = {
      users: db.prepare("SELECT COUNT(*) c FROM users").get().c,
      pendingOrders: db.prepare("SELECT COUNT(*) c FROM orders WHERE status='pending'").get().c,
      declinedCount: db.prepare("SELECT COUNT(*) c FROM orders
                                 WHERE status='declined' OR status='cancelled'").get().c,
      subscribers: db.prepare("SELECT COUNT(*) c FROM subscribers").get().c,
      totalAccounting: db.prepare("SELECT SUM(p.price_usd) s FROM orders o
                    JOIN plans p ON p.id=o.plan_id WHERE o.status='paid'").get().s || 0
    }; ... res.send(AdminDashboardView({ me, stats, posts, orders })); });\<close>

  The join pairs every order with every plan whose id is the order's \<open>plan_id\<close>, and
  \<open>WHERE\<close> filters the pairs. \<open>SUM\<close> over no row is NULL, and \<open>x || 0\<close> is 0 for NULL
  and for 0.
\<close>

definition orders_join_plans :: "db \<Rightarrow> (order_row \<times> plan) list" where
  "orders_join_plans d =
     concat (map (\<lambda>od. map (\<lambda>p. (od, p)) (filter (\<lambda>p. pl_id p = o_plan_id od) (plans d)))
               (orders d))"

definition sql_sum :: "real list \<Rightarrow> real option" where
  "sql_sum xs = (if xs = [] then None else Some (sum_list xs))"

definition or_zero :: "real option \<Rightarrow> real" where
  "or_zero x = (case x of None \<Rightarrow> 0 | Some v \<Rightarrow> v)"

definition dashboard_stats :: "db \<Rightarrow> stats" where
  "dashboard_stats d =
     \<lparr>stat_users = length (users d),
      pendingOrders = length (filter (\<lambda>od. o_status od = ''pending'') (orders d)),
      declinedCount =
        length (filter (\<lambda>od. o_status od = ''declined'' \<or> o_status od = ''cancelled'') (orders d)),
      stat_subscribers = length (subscribers d),
      totalAccounting =
        or_zero (sql_sum (map (\<lambda>(od, p). pl_price_usd p)
                   (filter (\<lambda>(od, p). o_status od = ''paid'') (orders_join_plans d))))\<rparr>"

definition dashboard_get :: "db \<Rightarrow> req \<Rightarrow> outcome" where
  "dashboard_get d r =
     (case requireRole d r [''admin''] of
        Inl resp \<Rightarrow> (resp, session r, d)
      | Inr me \<Rightarrow> (Send (AdminDashboardPage me (dashboard_stats d)), session r, d))"

text \<open>
  \<^verbatim>\<open>app.post('/admin/create_post', (req,res)=>{
    const me = requireRole(req,res,['admin']); if (!me || res.headersSent) return;
    const { title, image, excerpt, body } = req.body;
    if (!title) return res.redirect('/dashboard');
    db.prepare('INSERT INTO posts(title,author,image,excerpt,body) VALUES (?,?,?,?,?)')
      .run(title, me.name||me.email, image||'', excerpt||'', body||'');
    res.redirect('/dashboard'); });
  app.post('/admin/assign_role', (req,res)=>{
    const me = requireRole(req,res,['admin']); if (!me || res.headersSent) return;
    const email = String(req.body.email||'').toLowerCase();
    const role = String(req.body.role||'user');
    if (!email) return res.redirect('/dashboard');
    db.prepare('UPDATE users SET role=? WHERE email=?').run(role, email);
    res.redirect('/dashboard'); });\<close>
\<close>

definition admin_create_post ::
  "db \<Rightarrow> req \<Rightarrow> string option \<Rightarrow> string option \<Rightarrow> string option \<Rightarrow> string option \<Rightarrow>
     string \<Rightarrow> outcome" where
  "admin_create_post d r title img excerpt body created =
     (case requireRole d r [''admin''] of
        Inl resp \<Rightarrow> (resp, session r, d)
      | Inr me \<Rightarrow>
          if falsy title then (Redirect ''/dashboard'', session r, d)
          else (Redirect ''/dashboard'', session r,
                insert_post d (String_of title)
                  (if u_name me = [] then u_email me else u_name me)
                  (or_else img []) (or_else excerpt []) (or_else body []) created))"

definition admin_assign_role ::
  "platform \<Rightarrow> db \<Rightarrow> req \<Rightarrow> string option \<Rightarrow> string option \<Rightarrow> outcome" where
  "admin_assign_role pf d r email role =
     (case requireRole d r [''admin''] of
        Inl resp \<Rightarrow> (resp, session r, d)
      | Inr me \<Rightarrow>
          (let e = toLowerCase pf (or_else email []); ro = or_else role ''user'' in
           if e = [] then (Redirect ''/dashboard'', session r, d)
           else (Redirect ''/dashboard'', session r,
                 d\<lparr>users := map (\<lambda>u. if u_email u = e then u\<lparr>u_role := ro\<rparr> else u) (users d)\<rparr>)))"

subsection \<open>Staff routes\<close>

text \<open>
  \<^verbatim>\<open>app.post('/staff/add', (req,res)=>{
    const me = requireRole(req,res,['staff','admin']); if (!me || res.headersSent) return;
    const { email, password, name } = req.body;
    if (!email || !password) return res.redirect('/staff');
    try {
      db.prepare('INSERT INTO users(email,password_hash,name,role) VALUES (?,?,?,?)')
        .run(String(email).toLowerCase(), sha256(password), name||'', 'staff');
      const id = db.prepare('SELECT id FROM users WHERE email=?')
                   .get(String(email).toLowerCase()).id;
      db.prepare('INSERT OR IGNORE INTO statuses(user_id) VALUES (?)').run(id);
      db.prepare('INSERT OR IGNORE INTO metrics(user_id,likes,follows) VALUES (?,?,?)').run(id, 0, 0);
    } catch(e) { /* ignore duplicates */ }
    res.redirect('/staff'); });\<close>
\<close>

definition staff_add ::
  "platform \<Rightarrow> db \<Rightarrow> req \<Rightarrow> string option \<Rightarrow> string option \<Rightarrow> string option \<Rightarrow> outcome" where
  "staff_add pf d r email password name =
     (case requireRole d r [''staff'', ''admin''] of
        Inl resp \<Rightarrow> (resp, session r, d)
      | Inr me \<Rightarrow>
          if falsy email \<or> falsy password then (Redirect ''/staff'', session r, d)
          else
            (case insert_user d (toLowerCase pf (String_of email))
                    (sha256 pf (String_of password)) (or_else name []) None ''staff'' of
               None \<Rightarrow> (Redirect ''/staff'', session r, d)
             | Some d1 \<Rightarrow>
                 (case find (\<lambda>u. u_email u = toLowerCase pf (String_of email)) (users d1) of
                    None \<Rightarrow> (Redirect ''/staff'', session r, d1)
                  | Some row \<Rightarrow>
                      (Redirect ''/staff'', session r,
                       insert_metric (insert_status d1 (u_id row))
                         (Val (of_int (u_id row))) (Val 0) (Val 0)))))"

text \<open>
  \<^verbatim>\<open>app.post('/staff/promote', (req,res)=>{
    const me = requireRole(req,res,['staff','admin']); if (!me || res.headersSent) return;
    const id = Number(req.body.id);
    db.prepare('UPDATE users SET role=? WHERE id=?').run('staff', id);
    res.redirect('/staff'); });
  app.post('/staff/demote', ...  .run('user', id); ...\<close>
\<close>

definition set_role :: "db \<Rightarrow> string \<Rightarrow> jsnum \<Rightarrow> db" where
  "set_role d ro idn =
     d\<lparr>users := map (\<lambda>u. if id_is idn (u_id u) then u\<lparr>u_role := ro\<rparr> else u) (users d)\<rparr>"

definition staff_promote :: "db \<Rightarrow> req \<Rightarrow> jsnum \<Rightarrow> outcome" where
  "staff_promote d r idn =
     (case requireRole d r [''staff'', ''admin''] of
        Inl resp \<Rightarrow> (resp, session r, d)
      | Inr me \<Rightarrow> (Redirect ''/staff'', session r, set_role d ''staff'' idn))"

definition staff_demote :: "db \<Rightarrow> req \<Rightarrow> jsnum \<Rightarrow> outcome" where
  "staff_demote d r idn =
     (case requireRole d r [''staff'', ''admin''] of
        Inl resp \<Rightarrow> (resp, session r, d)
      | Inr me \<Rightarrow> (Redirect ''/staff'', session r, set_role d ''user'' idn))"

text \<open>
  \<^verbatim>\<open>app.post('/staff/delete', (req,res)=>{
    const me = requireRole(req,res,['staff','admin']); if (!me || res.headersSent) return;
    const id = Number(req.body.id);
    db.prepare('DELETE FROM users WHERE id=?').run(id);
    db.prepare('DELETE FROM targets WHERE user_id=?').run(id);
    db.prepare('DELETE FROM statuses WHERE user_id=?').run(id);
    db.prepare('DELETE FROM metrics WHERE user_id=?').run(id);
    res.redirect('/staff'); });\<close>
\<close>

definition delete_user :: "db \<Rightarrow> jsnum \<Rightarrow> db" where
  "delete_user d idn =
     d\<lparr>users := filter (\<lambda>u. \<not> id_is idn (u_id u)) (users d),
       targets := filter (\<lambda>t. \<not> id_is idn (tg_user_id t)) (targets d),
       statuses := filter (\<lambda>s. \<not> id_is idn (st_user_id s)) (statuses d),
       metrics := filter (\<lambda>m. \<not> sql_eq idn (m_user_id m)) (metrics d)\<rparr>"

definition staff_delete :: "db \<Rightarrow> req \<Rightarrow> jsnum \<Rightarrow> outcome" where
  "staff_delete d r idn =
     (case requireRole d r [''staff'', ''admin''] of
        Inl resp \<Rightarrow> (resp, session r, d)
      | Inr me \<Rightarrow> (Redirect ''/staff'', session r, delete_user d idn))"

text \<open>
  \<^verbatim>\<open>app.post('/staff/metrics', (req,res)=>{
    const me = requireRole(req,res,['staff','admin']); if (!me || res.headersSent) return;
    const user_id = Number(req.body.user_id);
    const add_likes = Math.max(0, Number(req.body.add_likes || 0));
    const add_follows = Math.max(0, Number(req.body.add_follows || 0));
    if (!user_id) return res.redirect('/staff');
    db.prepare('INSERT INTO metrics(user_id,likes,follows) VALUES (?,?,?)')
      .run(user_id, add_likes, add_follows);
    res.redirect('/staff'); });\<close>
\<close>

definition staff_metrics :: "db \<Rightarrow> req \<Rightarrow> jsnum \<Rightarrow> jsnum option \<Rightarrow> jsnum option \<Rightarrow> outcome" where
  "staff_metrics d r user_id likes_field follows_field =
     (case requireRole d r [''staff'', ''admin''] of
        Inl resp \<Rightarrow> (resp, session r, d)
      | Inr me \<Rightarrow>
          (let add_likes = Math_max (Val 0) (number_or_zero likes_field);
               add_follows = Math_max (Val 0) (number_or_zero follows_field)
           in if \<not> truthy user_id then (Redirect ''/staff'', session r, d)
              else (Redirect ''/staff'', session r,
                    insert_metric d user_id add_likes add_follows)))"

text \<open>
  \<^verbatim>\<open>app.post('/staff/toggle_unsubscribe', (req,res)=>{
    const me = requireRole(req,res,['staff','admin']); if (!me || res.headersSent) return;
    const id = Number(req.body.id);
    const u = db.prepare('SELECT unsubscribed FROM users WHERE id=?').get(id);
    if (u) {
      db.prepare('UPDATE users SET unsubscribed=? WHERE id=?').run(u.unsubscribed ? 0 : 1, id);
    }
    res.redirect('/staff'); });\<close>
\<close>

definition staff_toggle_unsubscribe :: "db \<Rightarrow> req \<Rightarrow> jsnum \<Rightarrow> outcome" where
  "staff_toggle_unsubscribe d r idn =
     (case requireRole d r [''staff'', ''admin''] of
        Inl resp \<Rightarrow> (resp, session r, d)
      | Inr me \<Rightarrow>
          (case find (\<lambda>u. id_is idn (u_id u)) (users d) of
             None \<Rightarrow> (Redirect ''/staff'', session r, d)
           | Some u \<Rightarrow>
               (Redirect ''/staff'', session r,
                d\<lparr>users :=
                    map (\<lambda>v. if id_is idn (u_id v)
                              then v\<lparr>u_unsubscribed := (if u_unsubscribed u \<noteq> 0 then 0 else 1)\<rparr>
                              else v) (users d)\<rparr>)))"

subsection \<open>Performance\<close>

text \<open>
  \<^verbatim>\<open>app.get('/performance', (req,res)=>{
    const me = requireRole(req,res,['staff','admin']); if (!me || res.headersSent) return;
    const userId = me.id;
    const rows = db.prepare('SELECT * FROM metrics WHERE user_id=? ORDER BY id').all(userId);
    if (!rows.length) { for (let i=0;i<6;i++)
      db.prepare('INSERT INTO metrics(user_id,likes,follows) VALUES (?,?,?)')
        .run(userId, 10+i*5, 8+i*3); }
    const rows2 = db.prepare('SELECT * FROM metrics WHERE user_id=? ORDER BY id').all(userId);
    ...
    const user = db.prepare('SELECT * FROM users WHERE id=?').get(userId);
    res.send(layout({ ... ${escapeHtml(user.email)} ... })); });
  app.get('/performance/:userId', ... const userId = Number(req.params.userId || me.id); ...\<close>

  When no user has the id, \<open>user.email\<close> throws after the rows were seeded, and the
  framework answers 500.
\<close>

definition seed_metrics :: "db \<Rightarrow> jsnum \<Rightarrow> db" where
  "seed_metrics d userId =
     fold (\<lambda>i acc. insert_metric acc userId (Val (10 + real i * 5)) (Val (8 + real i * 3)))
       [0..<6] d"

definition performance :: "db \<Rightarrow> req \<Rightarrow> user \<Rightarrow> jsnum \<Rightarrow> outcome" where
  "performance d r me userId =
     (let d1 = (if filter (\<lambda>m. sql_eq userId (m_user_id m)) (metrics d) = []
                then seed_metrics d userId else d);
          rows2 = filter (\<lambda>m. sql_eq userId (m_user_id m)) (metrics d1)
      in case find (\<lambda>u. id_is userId (u_id u)) (users d1) of
           None \<Rightarrow> (Status 500 ''Internal Server Error'', session r, d1)
         | Some u \<Rightarrow>
             (Send (PerformancePage me rows2 (escapeHtml (Str (u_email u)))), session r, d1))"

definition performance_get :: "db \<Rightarrow> req \<Rightarrow> outcome" where
  "performance_get d r =
     (case requireRole d r [''staff'', ''admin''] of
        Inl resp \<Rightarrow> (resp, session r, d)
      | Inr me \<Rightarrow> performance d r me (Val (of_int (u_id me))))"

definition performance_user_get :: "db \<Rightarrow> req \<Rightarrow> jsnum \<Rightarrow> outcome" where
  "performance_user_get d r userId =
     (case requireRole d r [''staff'', ''admin''] of
        Inl resp \<Rightarrow> (resp, session r, d)
      | Inr me \<Rightarrow> performance d r me userId)"

section \<open>The application\<close>

text \<open>
  The routes that execute a statement other than \<open>SELECT\<close>, or that change the session,
  and the admin dashboard. Every other route only reads. A request is first passed
  through the middleware, which sets \<open>req.user\<close>, then to its route.
\<close>

datatype request =
    Get_blog jsnum
  | Post_login int int "string option" "string option"
  | Get_logout
  | Post_signup "string option" "string option" "string option" "string option"
  | Post_contact_submit "string option" "string option" "string option" "string option"
  | Post_ticket "string option" "string option"
  | Post_subscribe "string option"
  | Post_checkout jsnum "string option" "string option"
  | Get_dashboard
  | Post_admin_create_post "string option" "string option" "string option" "string option" string
  | Post_admin_assign_role "string option" "string option"
  | Post_staff_add "string option" "string option" "string option"
  | Post_staff_promote jsnum
  | Post_staff_demote jsnum
  | Post_staff_delete jsnum
  | Post_staff_metrics jsnum "jsnum option" "jsnum option"
  | Post_staff_toggle_unsubscribe jsnum
  | Get_performance
  | Get_performance_user jsnum

fun route :: "platform \<Rightarrow> db \<Rightarrow> req \<Rightarrow> request \<Rightarrow> outcome" where
  "route pf d r (Get_blog idn) = blog_get d r idn"
| "route pf d r (Post_login t_gate t_now email password) =
     login_post pf t_gate t_now d r email password"
| "route pf d r Get_logout = logout_get d r"
| "route pf d r (Post_signup name email instagram password) =
     signup_post pf d r name email instagram password"
| "route pf d r (Post_contact_submit name email instagram message) =
     contact_submit d r name email instagram message"
| "route pf d r (Post_ticket subject message) = ticket_post d r subject message"
| "route pf d r (Post_subscribe email) = subscribe_post pf d r email"
| "route pf d r (Post_checkout plan_id ig_username notes) =
     checkout_post d r plan_id ig_username notes"
| "route pf d r Get_dashboard = dashboard_get d r"
| "route pf d r (Post_admin_create_post title img excerpt body created) =
     admin_create_post d r title img excerpt body created"
| "route pf d r (Post_admin_assign_role email role) = admin_assign_role pf d r email role"
| "route pf d r (Post_staff_add email password name) = staff_add pf d r email password name"
| "route pf d r (Post_staff_promote idn) = staff_promote d r idn"
| "route pf d r (Post_staff_demote idn) = staff_demote d r idn"
| "route pf d r (Post_staff_delete idn) = staff_delete d r idn"
| "route pf d r (Post_staff_metrics user_id likes follows) =
     staff_metrics d r user_id likes follows"
| "route pf d r (Post_staff_toggle_unsubscribe idn) = staff_toggle_unsubscribe d r idn"
| "route pf d r Get_performance = performance_get d r"
| "route pf d r (Get_performance_user userId) = performance_user_get d r userId"

definition handle :: "platform \<Rightarrow> db \<Rightarrow> req \<Rightarrow> request \<Rightarrow> outcome" where
  "handle pf d r rq = route pf d (middleware d r) rq"

section \<open>Notions used to state the properties\<close>

definition response_of :: "outcome \<Rightarrow> response" where
  "response_of out = fst out"

definition session_of :: "outcome \<Rightarrow> session" where
  "session_of out = fst (snd out)"

definition db_of :: "outcome \<Rightarrow> db" where
  "db_of out = snd (snd out)"

text \<open>
  The session has no authenticated user, or the user's role is not in the allow-list.
\<close>

definition denied :: "db \<Rightarrow> req \<Rightarrow> string list \<Rightarrow> bool" where
  "denied d r roles =
     (case authed d (session r) of None \<Rightarrow> True | Some u \<Rightarrow> u_role u \<notin> set roles)"

text \<open>
  A redirect to the login page when the \<open>Accept\<close> header includes \<open>text/html\<close>, a 403
  otherwise.
\<close>

definition deny_response :: "req \<Rightarrow> response" where
  "deny_response r = (if accepts_html r then Redirect ''/login'' else Status 403 ''Forbidden'')"

text \<open>
  The price of the plan an order refers to; an order whose plan is missing has none and
  adds nothing to a sum of prices.
\<close>

definition plan_price :: "db \<Rightarrow> int \<Rightarrow> real" where
  "plan_price d k =
     (case find (\<lambda>p. pl_id p = k) (plans d) of None \<Rightarrow> 0 | Some p \<Rightarrow> pl_price_usd p)"

text \<open>The failures counted in a session, \<open>req.session.failed_login || 0\<close>.\<close>

definition fails :: "session \<Rightarrow> int" where
  "fails s = (case failed_login s of None \<Rightarrow> 0 | Some k \<Rightarrow> k)"

text \<open>
  A client that posts to \<open>/login\<close> several times with the cookie of the answer before;
  an attempt is the two clock readings, the address and the password. The result is the
  session after the last attempt.
\<close>

fun login_attempts ::
  "platform \<Rightarrow> db \<Rightarrow> req \<Rightarrow> (int \<times> int \<times> string option \<times> string option) list \<Rightarrow> session" where
  "login_attempts pf d r [] = session r"
| "login_attempts pf d r ((t_gate, t_now, email, password) # rest) =
     login_attempts pf d
       (r\<lparr>session := session_of (login_post pf t_gate t_now d r email password)\<rparr>) rest"

text \<open>
  Every attempt of the sequence is a failed one: it is not made during a lockout, and
  its credentials match no user.
\<close>

fun all_failed ::
  "platform \<Rightarrow> db \<Rightarrow> req \<Rightarrow> (int \<times> int \<times> string option \<times> string option) list \<Rightarrow> bool" where
  "all_failed pf d r [] = True"
| "all_failed pf d r ((t_gate, t_now, email, password) # rest) =
     (lock_in_force (session r) t_gate = None \<and> credentials_row pf d email password = None \<and>
      all_failed pf d
        (r\<lparr>session := session_of (login_post pf t_gate t_now d r email password)\<rparr>) rest)"

text \<open>
  Status rows belong to user ids that have been handed out: the routes insert one only
  for a user they have just inserted.
\<close>

definition statuses_known :: "db \<Rightarrow> bool" where
  "statuses_known d = (\<forall>s \<in> set (statuses d). st_user_id s \<le> users_seq d)"

text \<open>
  The server answers a sequence of requests, of any clients, one after the other; the
  result is the store after the last.
\<close>

fun serve :: "platform \<Rightarrow> db \<Rightarrow> (req \<times> request) list \<Rightarrow> db" where
  "serve pf d [] = d"
| "serve pf d ((r, rq) # rest) = serve pf (db_of (handle pf d r rq)) rest"

text \<open>
  Between two stores no post is lost or renumbered and no view counter has decreased.
\<close>

definition views_kept :: "db \<Rightarrow> db \<Rightarrow> bool" where
  "views_kept d d' =
     (length (posts d) \<le> length (posts d') \<and>
      (\<forall>i < length (posts d). po_id (posts d' ! i) = po_id (posts d ! i) \<and>
                                 po_views (posts d ! i) \<le> po_views (posts d' ! i)))"

subsection \<open>A small store for the concrete instances\<close>

text \<open>
  Stand-ins for the platform functions, and the three seeded users of \<open>initDb\<close> with
  their dependent rows, the three seeded plans, one post, two orders and a ticket.
\<close>

definition ascii_lower :: "string \<Rightarrow> string" where
  "ascii_lower s =
     map (\<lambda>c. case map_of (zip ''ABCDEFGHIJKLMNOPQRSTUVWXYZ'' ''abcdefghijklmnopqrstuvwxyz'') c of
                None \<Rightarrow> c | Some l \<Rightarrow> l) s"

definition demo_platform :: platform where
  "demo_platform =
     \<lparr>sha256 = (\<lambda>s. ''sha256:'' @ s), toLowerCase = ascii_lower,
      trim = (\<lambda>s. rev (dropWhile (\<lambda>c. c = CHR '' '') (rev (dropWhile (\<lambda>c. c = CHR '' '') s))))\<rparr>"

definition demo_admin :: user where
  "demo_admin = \<lparr>u_id = 1, u_email = ''admin@smm.local'', u_password_hash = ''sha256:admin123'',
     u_name = ''Admin'', u_role = ''admin'', u_instagram = Some ''@admin'', u_unsubscribed = 0\<rparr>"

definition demo_staff :: user where
  "demo_staff = \<lparr>u_id = 2, u_email = ''staff@smm.local'', u_password_hash = ''sha256:staff123'',
     u_name = ''Team Member'', u_role = ''staff'', u_instagram = Some ''@staff'',
     u_unsubscribed = 0\<rparr>"

definition demo_user :: user where
  "demo_user = \<lparr>u_id = 3, u_email = ''user@smm.local'', u_password_hash = ''sha256:user123'',
     u_name = ''Demo User'', u_role = ''user'', u_instagram = Some ''@demouser'',
     u_unsubscribed = 0\<rparr>"

definition demo_post :: post where
  "demo_post = \<lparr>po_id = 1, po_title = ''Reels That Go Viral'', po_author = ''Hannah Lee'',
     po_image = [], po_excerpt = ''Hooks'', po_body = ''# Reels Playbook'', po_views = 4,
     po_created_at = ''2024-01-01 00:00:00''\<rparr>"

definition demo_db :: db where
  "demo_db =
     \<lparr>users = [demo_admin, demo_staff, demo_user], users_seq = 3,
      posts = [demo_post], posts_seq = 1,
      plans = [\<lparr>pl_id = 1, pl_name = ''Kickoff Plan'', pl_price_usd = 49, pl_features = ''[]''\<rparr>,
               \<lparr>pl_id = 2, pl_name = ''Growth Plan'', pl_price_usd = 69, pl_features = ''[]''\<rparr>,
               \<lparr>pl_id = 3, pl_name = ''Advanced Plan'', pl_price_usd = 129, pl_features = ''[]''\<rparr>],
      orders = [\<lparr>o_id = 1, o_user_id = 3, o_plan_id = 2, o_ig_username = ''@demouser'',
                  o_notes = [], o_status = ''paid''\<rparr>,
                \<lparr>o_id = 2, o_user_id = 3, o_plan_id = 3, o_ig_username = ''@demouser'',
                  o_notes = [], o_status = ''pending''\<rparr>],
      orders_seq = 2,
      tickets = [\<lparr>t_id = 1, t_user_id = Some 3, t_email = ''user@smm.local'',
                   t_instagram = Some ''@demouser'', t_subject = Some ''Help'',
                   t_message = Some ''Hello''\<rparr>],
      tickets_seq = 1,
      metrics = [\<lparr>m_id = 1, m_user_id = Val 1, m_likes = Val 60, m_follows = Val 25\<rparr>,
                 \<lparr>m_id = 2, m_user_id = Val 2, m_likes = Val 70, m_follows = Val 30\<rparr>,
                 \<lparr>m_id = 3, m_user_id = Val 3, m_likes = Val 80, m_follows = Val 35\<rparr>],
      metrics_seq = 3,
      targets = [\<lparr>tg_id = 1, tg_user_id = 1, tg_niche = ''Fitness'', tg_competitors = ''@nike'',
                   tg_hashtags = ''#fitness'', tg_geo = ''United States'', tg_notes = []\<rparr>,
                 \<lparr>tg_id = 2, tg_user_id = 2, tg_niche = ''Fitness'', tg_competitors = ''@nike'',
                   tg_hashtags = ''#fitness'', tg_geo = ''United States'', tg_notes = []\<rparr>,
                 \<lparr>tg_id = 3, tg_user_id = 3, tg_niche = ''Fitness'', tg_competitors = ''@nike'',
                   tg_hashtags = ''#fitness'', tg_geo = ''United States'', tg_notes = []\<rparr>],
      targets_seq = 3,
      statuses = [\<lparr>st_id = 1, st_user_id = 1\<rparr>, \<lparr>st_id = 2, st_user_id = 2\<rparr>,
                  \<lparr>st_id = 3, st_user_id = 3\<rparr>],
      statuses_seq = 3,
      subscribers = [], subscribers_seq = 0\<rparr>"

text \<open>A browser's request (\<open>Accept: text/html\<close>) with the given session.\<close>

definition demo_req :: "session \<Rightarrow> req" where
  "demo_req s = \<lparr>session = s, accept = Some ''text/html'', referer = None, req_user = None\<rparr>"

text \<open>The session of a signed-in user with the given id.\<close>

definition signed_in :: "int \<Rightarrow> session" where
  "signed_in k = \<lparr>uid = Some k, failed_login = Some 0, login_locked_until = None\<rparr>"

text \<open>
  A session locked until 300000 ms, after six failures, of the user with the given id
  or of nobody.
\<close>

definition locked_session :: "int option \<Rightarrow> session" where
  "locked_session u = \<lparr>uid = u, failed_login = Some 6, login_locked_until = Some 300000\<rparr>"

section \<open>Properties\<close>

subsection \<open>Basic facts\<close>

lemma requireRole_denied:
  "denied d r roles \<Longrightarrow> requireRole d r roles = Inl (deny_response r)"
  by (auto simp add: denied_def requireRole_def deny_response_def split: option.splits)

lemma requireRole_granted:
  "authed d (session r) = Some me \<Longrightarrow> u_role me \<in> set roles \<Longrightarrow> requireRole d r roles = Inr me"
  by (simp add: requireRole_def)

lemma authed_demo [simp]:
  "authed demo_db (signed_in 1) = Some demo_admin"
  "authed demo_db (signed_in 2) = Some demo_staff"
  "authed demo_db (signed_in 3) = Some demo_user"
  "authed demo_db empty_session = None"
  by (simp_all add: authed_def demo_db_def signed_in_def empty_session_def demo_admin_def
      demo_staff_def demo_user_def)

lemma demo_req_simps [simp]:
  "session (demo_req s) = s" "accept (demo_req s) = Some ''text/html''"
  "referer (demo_req s) = None" "req_user (demo_req s) = None"
  by (simp_all add: demo_req_def)

lemma accepts_html_demo [simp]: "accepts_html (demo_req s)"
  by (simp add: accepts_html_def)

text \<open>\<open>str_includes\<close> is the substring test, so \<open>accepts_html\<close> says that the header
  is present and contains \<open>text/html\<close>.\<close>

lemma str_includes_iff: "str_includes s t \<longleftrightarrow> (\<exists>p q. s = p @ t @ q)"
proof (induction s)
  case Nil
  then show ?case by auto
next
  case (Cons c cs)
  show ?case
  proof
    assume "str_includes (c # cs) t"
    then consider "take (length t) (c # cs) = t" | "str_includes cs t" by auto
    then show "\<exists>p q. c # cs = p @ t @ q"
    proof cases
      case 1
      then have "c # cs = [] @ t @ drop (length t) (c # cs)"
        by (metis append_Nil append_take_drop_id)
      then show ?thesis by blast
    next
      case 2
      with Cons obtain p q where "cs = p @ t @ q" by blast
      then have "c # cs = (c # p) @ t @ q" by simp
      then show ?thesis by blast
    qed
  next
    assume "\<exists>p q. c # cs = p @ t @ q"
    then obtain p q where pq: "c # cs = p @ t @ q" by blast
    show "str_includes (c # cs) t"
    proof (cases p)
      case Nil
      with pq have "take (length t) (c # cs) = t" by simp
      then show ?thesis by simp
    next
      case (Cons a p')
      with pq have "cs = p' @ t @ q" by simp
      with Cons.IH have "str_includes cs t" by blast
      then show ?thesis by simp
    qed
  qed
qed

lemma accepts_html_iff:
  "accepts_html r \<longleftrightarrow> (\<exists>p q. accept r = Some (p @ ''text/html'' @ q))"
  by (cases "accept r") (auto simp add: accepts_html_def str_includes_iff)

lemma id_is_of_int [simp]: "id_is (Val (of_int k)) j = (j = k)"
  by (auto simp add: id_is_def)

lemma sql_eq_Val [simp]: "sql_eq (Val x) b = (b = Val x)"
  by (auto simp add: sql_eq_def)

lemma middleware_simps [simp]:
  "session (middleware d r) = session r" "accept (middleware d r) = accept r"
  "referer (middleware d r) = referer r" "req_user (middleware d r) = authed d (session r)"
  by (simp_all add: middleware_def)

lemma Math_max_zero_Val [simp]: "Math_max (Val 0) (Val x) = Val (max 0 x)"
  by simp

lemma find_id_member:
  "k \<in> set (map f xs) \<Longrightarrow> \<exists>x. find (\<lambda>x. f x = k) xs = Some x \<and> f x = k \<and> x \<in> set xs"
  by (induction xs) auto

lemma find_append_new:
  "\<forall>x \<in> set xs. \<not> P x \<Longrightarrow> P y \<Longrightarrow> find P (xs @ [y]) = Some y"
  by (induction xs) auto

lemma autoinc_gt_seq: "seq < autoinc seq ids"
  by (simp add: autoinc_def)

lemma demo_lower [simp]:
  "toLowerCase demo_platform ''user@smm.local'' = ''user@smm.local''"
  "toLowerCase demo_platform ''Admin@smm.local'' = ''admin@smm.local''"
  by (simp_all add: demo_platform_def ascii_lower_def)

lemma demo_find_email [simp]:
  "find (\<lambda>u. u_email u = ''user@smm.local'') (users demo_db) = Some demo_user"
  "find (\<lambda>u. u_email u = ''admin@smm.local'') (users demo_db) = Some demo_admin"
  by (simp_all add: demo_db_def demo_admin_def demo_staff_def demo_user_def)

subsection \<open>What the routes leave alone\<close>

lemma insert_proj [simp]:
  "statuses (insert_metric d a b c) = statuses d" "users_seq (insert_metric d a b c) = users_seq d"
  "posts (insert_metric d a b c) = posts d"
  "statuses (insert_target d u n1 n2 n3 n4 n5) = statuses d"
  "users_seq (insert_target d u n1 n2 n3 n4 n5) = users_seq d"
  "posts (insert_target d u n1 n2 n3 n4 n5) = posts d"
  "statuses (insert_order d u p1 i1 n s) = statuses d"
  "users_seq (insert_order d u p1 i1 n s) = users_seq d"
  "posts (insert_order d u p1 i1 n s) = posts d"
  "statuses (insert_ticket d uo e i2 su me) = statuses d"
  "users_seq (insert_ticket d uo e i2 su me) = users_seq d"
  "posts (insert_ticket d uo e i2 su me) = posts d"
  "statuses (insert_subscriber d e) = statuses d"
  "users_seq (insert_subscriber d e) = users_seq d"
  "posts (insert_subscriber d e) = posts d"
  "statuses (insert_post d t1 t2 t3 t4 t5 t6) = statuses d"
  "users_seq (insert_post d t1 t2 t3 t4 t5 t6) = users_seq d"
  "users_seq (insert_status d k) = users_seq d"
  "posts (insert_status d k) = posts d"
  by (simp_all add: insert_metric_def insert_target_def insert_order_def insert_ticket_def
      insert_subscriber_def insert_post_def insert_status_def Let_def)

lemma fold_insert_metric_proj:
  "statuses (fold (\<lambda>i acc. insert_metric acc u (f i) (g i)) xs d) = statuses d \<and>
   users_seq (fold (\<lambda>i acc. insert_metric acc u (f i) (g i)) xs d) = users_seq d \<and>
   posts (fold (\<lambda>i acc. insert_metric acc u (f i) (g i)) xs d) = posts d"
  by (induction xs arbitrary: d) simp_all

lemma seed_metrics_proj [simp]:
  "statuses (seed_metrics d u) = statuses d" "users_seq (seed_metrics d u) = users_seq d"
  "posts (seed_metrics d u) = posts d"
  by (simp_all add: seed_metrics_def fold_insert_metric_proj)

lemma insert_user_proj:
  "insert_user d e h n i ro = Some d1 \<Longrightarrow>
     statuses d1 = statuses d \<and> posts d1 = posts d \<and> users_seq d < users_seq d1 \<and>
     (\<forall>u. find (\<lambda>u. u_email u = e) (users d1) = Some u \<longrightarrow> u_id u = users_seq d1)"
proof -
  assume a: "insert_user d e h n i ro = Some d1"
  then have ne: "e \<notin> set (map u_email (users d))"
    by (auto simp add: insert_user_def split: if_splits)
  then have "\<forall>x \<in> set (users d). \<not> u_email x = e" by (auto simp add: image_iff)
  then have "\<And>y. u_email y = e \<Longrightarrow> find (\<lambda>u. u_email u = e) (users d @ [y]) = Some y"
    by (rule find_append_new)
  with a ne show ?thesis
    using autoinc_gt_seq [of "users_seq d" "map u_id (users d)"]
    by (auto simp add: insert_user_def Let_def)
qed

lemma frame_simple:
  "statuses (db_of (blog_get d r idn)) = statuses d \<and> users_seq (db_of (blog_get d r idn)) = users_seq d"
  "db_of (login_post pf t1 t2 d r email password) = d"
  "db_of (logout_get d r) = d"
  "statuses (db_of (contact_submit d r name email instagram message)) = statuses d \<and>
   users_seq (db_of (contact_submit d r name email instagram message)) = users_seq d \<and>
   posts (db_of (contact_submit d r name email instagram message)) = posts d"
  "statuses (db_of (ticket_post d r subject message)) = statuses d \<and>
   users_seq (db_of (ticket_post d r subject message)) = users_seq d \<and>
   posts (db_of (ticket_post d r subject message)) = posts d"
  "statuses (db_of (subscribe_post pf d r email)) = statuses d \<and>
   users_seq (db_of (subscribe_post pf d r email)) = users_seq d \<and>
   posts (db_of (subscribe_post pf d r email)) = posts d"
  "statuses (db_of (checkout_post d r plan_id ig notes)) = statuses d \<and>
   users_seq (db_of (checkout_post d r plan_id ig notes)) = users_seq d \<and>
   posts (db_of (checkout_post d r plan_id ig notes)) = posts d"
  "db_of (dashboard_get d r) = d"
  by (simp_all add: db_of_def blog_get_def login_post_def logout_get_def contact_submit_def
      ticket_post_def subscribe_post_def checkout_post_def dashboard_get_def Let_def
      split: option.splits sum.splits)

lemma frame_guarded:
  "statuses (db_of (admin_create_post d r title img excerpt body created)) = statuses d \<and>
   users_seq (db_of (admin_create_post d r title img excerpt body created)) = users_seq d"
  "statuses (db_of (admin_assign_role pf d r email role)) = statuses d \<and>
   users_seq (db_of (admin_assign_role pf d r email role)) = users_seq d \<and>
   posts (db_of (admin_assign_role pf d r email role)) = posts d"
  "statuses (db_of (staff_promote d r idn)) = statuses d \<and>
   users_seq (db_of (staff_promote d r idn)) = users_seq d \<and>
   posts (db_of (staff_promote d r idn)) = posts d"
  "statuses (db_of (staff_demote d r idn)) = statuses d \<and>
   users_seq (db_of (staff_demote d r idn)) = users_seq d \<and>
   posts (db_of (staff_demote d r idn)) = posts d"
  "statuses (db_of (staff_metrics d r idn likes follows)) = statuses d \<and>
   users_seq (db_of (staff_metrics d r idn likes follows)) = users_seq d \<and>
   posts (db_of (staff_metrics d r idn likes follows)) = posts d"
  "statuses (db_of (staff_toggle_unsubscribe d r idn)) = statuses d \<and>
   users_seq (db_of (staff_toggle_unsubscribe d r idn)) = users_seq d \<and>
   posts (db_of (staff_toggle_unsubscribe d r idn)) = posts d"
  "statuses (db_of (performance d r me idn)) = statuses d \<and>
   users_seq (db_of (performance d r me idn)) = users_seq d \<and>
   posts (db_of (performance d r me idn)) = posts d"
  "set (statuses (db_of (staff_delete d r idn))) \<subseteq> set (statuses d) \<and>
   users_seq (db_of (staff_delete d r idn)) = users_seq d \<and>
   posts (db_of (staff_delete d r idn)) = posts d"
  by (simp_all add: db_of_def admin_create_post_def admin_assign_role_def staff_promote_def
      staff_demote_def set_role_def staff_metrics_def staff_toggle_unsubscribe_def
      performance_def staff_delete_def delete_user_def Let_def
      split: option.splits sum.splits)

lemma frame_performance:
  "statuses (db_of (performance_get d r)) = statuses d \<and>
   users_seq (db_of (performance_get d r)) = users_seq d \<and>
   posts (db_of (performance_get d r)) = posts d"
  "statuses (db_of (performance_user_get d r idn)) = statuses d \<and>
   users_seq (db_of (performance_user_get d r idn)) = users_seq d \<and>
   posts (db_of (performance_user_get d r idn)) = posts d"
  using frame_guarded(7)
  by (simp_all add: performance_get_def performance_user_get_def split: sum.splits)
     (simp_all add: db_of_def)

lemma frame_posts_signup:
  "posts (db_of (signup_post pf d r name email instagram password)) = posts d"
proof (cases "insert_user d (toLowerCase pf (String_of email)) (sha256 pf (String_of password))
                (or_else name []) (Some (or_else instagram [])) ''user''")
  case None
  then show ?thesis by (simp add: signup_post_def db_of_def)
next
  case (Some d1)
  then have "posts d1 = posts d" by (simp add: insert_user_proj)
  with Some show ?thesis
    by (simp add: signup_post_def db_of_def Let_def split: option.splits)
qed

lemma frame_posts_staff_add:
  "posts (db_of (staff_add pf d r email password name)) = posts d"
proof (cases "insert_user d (toLowerCase pf (String_of email)) (sha256 pf (String_of password))
                (or_else name []) None ''staff''")
  case None
  then show ?thesis by (simp add: staff_add_def db_of_def split: sum.splits)
next
  case (Some d1)
  then have "posts d1 = posts d" by (simp add: insert_user_proj)
  with Some show ?thesis
    by (simp add: staff_add_def db_of_def Let_def split: option.splits sum.splits)
qed

lemma statuses_known_insert_status:
  "statuses_known d \<Longrightarrow> k \<le> users_seq d \<Longrightarrow> statuses_known (insert_status d k)"
  by (auto simp add: statuses_known_def insert_status_def Let_def)

lemma statuses_known_mono:
  "statuses_known d \<Longrightarrow> statuses d1 = statuses d \<Longrightarrow> users_seq d \<le> users_seq d1 \<Longrightarrow>
     statuses_known d1"
  by (fastforce simp add: statuses_known_def)

lemma statuses_known_subset:
  "statuses_known d \<Longrightarrow> set (statuses d1) \<subseteq> set (statuses d) \<Longrightarrow> users_seq d \<le> users_seq d1 \<Longrightarrow>
     statuses_known d1"
  by (fastforce simp add: statuses_known_def)

lemma statuses_known_signup:
  assumes "statuses_known d"
  shows "statuses_known (db_of (signup_post pf d r name email instagram password))"
proof (cases "insert_user d (toLowerCase pf (String_of email)) (sha256 pf (String_of password))
                (or_else name []) (Some (or_else instagram [])) ''user''")
  case None
  with assms show ?thesis by (simp add: signup_post_def db_of_def)
next
  case (Some d1)
  note p = insert_user_proj [OF Some]
  from p have "statuses d1 = statuses d" and "users_seq d \<le> users_seq d1" by simp_all
  with assms have k1: "statuses_known d1" by (rule statuses_known_mono)
  show ?thesis
  proof (cases "find (\<lambda>u. u_email u = toLowerCase pf (String_of email)) (users d1)")
    case None
    with Some assms k1 show ?thesis by (simp add: signup_post_def db_of_def)
  next
    case (Some row)
    with p have "u_id row \<le> users_seq d1" by simp
    with k1 have "statuses_known (insert_status d1 (u_id row))"
      by (rule statuses_known_insert_status)
    then have "statuses_known (insert_metric (insert_target (insert_status d1 (u_id row)) (u_id row) [] [] [] [] [])
         (Val (of_int (u_id row))) (Val 10) (Val 8))"
      by (rule statuses_known_mono) simp_all
    with Some \<open>insert_user _ _ _ _ _ _ = Some d1\<close> assms show ?thesis
      by (simp add: signup_post_def db_of_def Let_def)
  qed
qed

lemma statuses_known_staff_add:
  assumes "statuses_known d"
  shows "statuses_known (db_of (staff_add pf d r email password name))"
proof (cases "insert_user d (toLowerCase pf (String_of email)) (sha256 pf (String_of password))
                (or_else name []) None ''staff''")
  case None
  with assms show ?thesis by (simp add: staff_add_def db_of_def split: sum.splits)
next
  case (Some d1)
  note p = insert_user_proj [OF Some]
  from p have "statuses d1 = statuses d" and "users_seq d \<le> users_seq d1" by simp_all
  with assms have k1: "statuses_known d1" by (rule statuses_known_mono)
  show ?thesis
  proof (cases "find (\<lambda>u. u_email u = toLowerCase pf (String_of email)) (users d1)")
    case None
    with Some assms k1 show ?thesis by (simp add: staff_add_def db_of_def split: sum.splits)
  next
    case (Some row)
    with p have "u_id row \<le> users_seq d1" by simp
    with k1 have "statuses_known (insert_status d1 (u_id row))"
      by (rule statuses_known_insert_status)
    then have "statuses_known (insert_metric (insert_status d1 (u_id row))
         (Val (of_int (u_id row))) (Val 0) (Val 0))"
      by (rule statuses_known_mono) simp_all
    with Some \<open>insert_user _ _ _ _ _ _ = Some d1\<close> assms show ?thesis
      by (simp add: staff_add_def db_of_def Let_def split: sum.splits)
  qed
qed

text \<open>
  The hypothesis of the signup property holds throughout: every request keeps it.
\<close>

lemma statuses_known_handle:
  assumes "statuses_known d"
  shows "statuses_known (db_of (handle pf d r rq))"
proof (cases rq)
  case (Post_signup name email instagram password)
  with assms show ?thesis by (simp add: handle_def statuses_known_signup)
next
  case (Post_staff_add email password name)
  with assms show ?thesis by (simp add: handle_def statuses_known_staff_add)
next
  case (Post_staff_delete idn)
  have "statuses_known (db_of (staff_delete d (middleware d r) idn))"
    using assms by (rule statuses_known_subset) (simp_all add: frame_guarded)
  with Post_staff_delete show ?thesis by (simp add: handle_def)
qed (auto simp add: handle_def frame_simple frame_guarded frame_performance
      intro!: statuses_known_mono [OF assms])

subsection \<open>The role gate\<close>

text \<open>
  Claim C1. When the session has no authenticated user, or the user's role is not in the
  allow-list, \<open>requireRole\<close> answers with a redirect to \<open>/login\<close> if the
  \<open>Accept\<close> header includes \<open>text/html\<close> and with 403 otherwise, and every route
  behind the gate ends there: it sends that answer and leaves the session and the whole
  store as they were. The staff routes pass the roles staff and admin, the admin routes
  the role admin. In particular a session of role user posting to \<open>/staff/delete\<close>
  changes no row.
\<close>

theorem role_gate:
  "(denied d r roles \<longrightarrow> requireRole d r roles = Inl (deny_response r)) \<and>
   (denied d r [''staff'', ''admin''] \<longrightarrow>
      staff_delete d r idn = (deny_response r, session r, d) \<and>
      staff_promote d r idn = (deny_response r, session r, d) \<and>
      staff_demote d r idn = (deny_response r, session r, d) \<and>
      staff_metrics d r idn likes follows = (deny_response r, session r, d) \<and>
      staff_toggle_unsubscribe d r idn = (deny_response r, session r, d) \<and>
      staff_add pf d r email password name = (deny_response r, session r, d) \<and>
      performance_get d r = (deny_response r, session r, d) \<and>
      performance_user_get d r idn = (deny_response r, session r, d)) \<and>
   (denied d r [''admin''] \<longrightarrow>
      admin_create_post d r title img excerpt body created = (deny_response r, session r, d) \<and>
      admin_assign_role pf d r email role = (deny_response r, session r, d) \<and>
      dashboard_get d r = (deny_response r, session r, d))"
  by (simp add: requireRole_denied staff_delete_def staff_promote_def staff_demote_def
      staff_metrics_def staff_toggle_unsubscribe_def staff_add_def performance_get_def
      performance_user_get_def admin_create_post_def admin_assign_role_def dashboard_get_def)

theorem role_gate_witness:
  "denied demo_db (demo_req (signed_in 3)) [''staff'', ''admin''] \<and>
   staff_delete demo_db (demo_req (signed_in 3)) (Val 3) =
     (Redirect ''/login'', signed_in 3, demo_db) \<and>
   denied demo_db (demo_req empty_session) [''admin''] \<and>
   requireRole demo_db (demo_req empty_session) [''admin''] = Inl (Redirect ''/login'') \<and>
   denied demo_db ((demo_req (signed_in 3))\<lparr>accept := Some ''application/json''\<rparr>)
     [''staff'', ''admin''] \<and>
   staff_delete demo_db ((demo_req (signed_in 3))\<lparr>accept := Some ''application/json''\<rparr>)
     (Val 3) = (Status 403 ''Forbidden'', signed_in 3, demo_db)"
proof -
  let ?json = "(demo_req (signed_in 3))\<lparr>accept := Some ''application/json''\<rparr>"
  have d1: "denied demo_db (demo_req (signed_in 3)) [''staff'', ''admin'']"
    by (simp add: denied_def demo_user_def)
  have d2: "denied demo_db (demo_req empty_session) [''admin'']"
    by (simp add: denied_def)
  have d3: "denied demo_db ?json [''staff'', ''admin'']"
    by (simp add: denied_def demo_user_def)
  have nh: "\<not> accepts_html ?json"
    by (simp add: accepts_html_def)
  from d1 role_gate [of demo_db "demo_req (signed_in 3)" "[''staff'', ''admin'']" "Val 3"]
  have "staff_delete demo_db (demo_req (signed_in 3)) (Val 3) =
     (Redirect ''/login'', signed_in 3, demo_db)"
    by (simp add: deny_response_def)
  moreover from d2 role_gate [of demo_db "demo_req empty_session" "[''admin'']"]
  have "requireRole demo_db (demo_req empty_session) [''admin''] = Inl (Redirect ''/login'')"
    by (simp add: deny_response_def)
  moreover from d3 nh role_gate [of demo_db ?json "[''staff'', ''admin'']" "Val 3"]
  have "staff_delete demo_db ?json (Val 3) = (Status 403 ''Forbidden'', signed_in 3, demo_db)"
    by (simp add: deny_response_def)
  ultimately show ?thesis using d1 d2 d3 by blast
qed

subsection \<open>Login lockout\<close>

lemma waitSec_mono: "t \<le> t' \<Longrightarrow> waitSec l t' \<le> waitSec l t"
  unfolding waitSec_def by (intro ceiling_mono divide_right_mono) simp_all

lemma waitSec_strict:
  assumes "t + 1000 \<le> t'"
  shows "waitSec l t' < waitSec l t"
proof -
  have "real_of_int (l - t') / 1000 \<le> real_of_int (l - t) / 1000 - 1"
    using assms by (simp add: field_simps)
  then have "\<lceil>real_of_int (l - t') / 1000\<rceil> \<le> \<lceil>real_of_int (l - t) / 1000 - 1\<rceil>"
    by (rule ceiling_mono)
  also have "\<dots> = \<lceil>real_of_int (l - t) / 1000\<rceil> - 1" by simp
  finally show ?thesis by (simp add: waitSec_def)
qed

lemma login_fail_step:
  assumes "lock_in_force (session r) t_gate = None"
    and "credentials_row pf d email password = None"
  shows "session_of (login_post pf t_gate t_now d r email password) =
           (if fails (session r) + 1 \<ge> 6
            then (session r)\<lparr>failed_login := Some (fails (session r) + 1),
                              login_locked_until := Some (t_now + 300000)\<rparr>
            else (session r)\<lparr>failed_login := Some (fails (session r) + 1)\<rparr>)"
  using assms
  by (simp add: login_post_def session_of_def Let_def fails_def)

lemma login_attempts_append:
  "login_attempts pf d r (xs @ ys) =
     login_attempts pf d (r\<lparr>session := login_attempts pf d r xs\<rparr>) ys"
  by (induction xs arbitrary: r) auto

lemma all_failed_append:
  "all_failed pf d r (xs @ ys) =
     (all_failed pf d r xs \<and> all_failed pf d (r\<lparr>session := login_attempts pf d r xs\<rparr>) ys)"
  by (induction xs arbitrary: r) auto

lemma all_failed_count:
  "all_failed pf d r xs \<Longrightarrow>
     fails (login_attempts pf d r xs) = fails (session r) + int (length xs) \<and>
     uid (login_attempts pf d r xs) = uid (session r)"
proof (induction xs arbitrary: r)
  case Nil
  then show ?case by simp
next
  case (Cons a xs)
  obtain t_gate t_now email password where a: "a = (t_gate, t_now, email, password)"
    by (cases a) auto
  let ?s = "session_of (login_post pf t_gate t_now d r email password)"
  from Cons.prems a have f: "lock_in_force (session r) t_gate = None"
      "credentials_row pf d email password = None"
      "all_failed pf d (r\<lparr>session := ?s\<rparr>) xs"
    by simp_all
  from login_fail_step [OF f(1) f(2), of t_now]
  have s1: "fails ?s = fails (session r) + 1" "uid ?s = uid (session r)"
    by (simp_all add: fails_def)
  from Cons.IH [OF f(3)] s1 a show ?case by simp
qed

lemma six_failures_lock:
  assumes "0 \<le> fails (session r)" and "length attempts = 6" and "all_failed pf d r attempts"
  shows "login_attempts pf d r attempts =
           (session r)\<lparr>failed_login := Some (fails (session r) + 6),
                        login_locked_until := Some (fst (snd (last attempts)) + 5 * 60 * 1000)\<rparr>"
proof -
  from assms(2) have ne: "attempts \<noteq> []" by auto
  obtain t_gate6 t_now6 email6 password6 where
    l6: "last attempts = (t_gate6, t_now6, email6, password6)"
    by (cases "last attempts") auto
  let ?xs = "butlast attempts"
  from ne l6 have split: "attempts = ?xs @ [(t_gate6, t_now6, email6, password6)]"
    by (metis append_butlast_last_id)
  let ?s5 = "login_attempts pf d r ?xs"
  from assms(3) split have af: "all_failed pf d r ?xs"
    "all_failed pf d (r\<lparr>session := ?s5\<rparr>) [(t_gate6, t_now6, email6, password6)]"
    using all_failed_append [of pf d r ?xs "[(t_gate6, t_now6, email6, password6)]"] by simp_all
  from all_failed_count [OF af(1)] assms(2)
  have s5: "fails ?s5 = fails (session r) + 5" "uid ?s5 = uid (session r)" by simp_all
  from af(2) have g: "lock_in_force ?s5 t_gate6 = None"
      "credentials_row pf d email6 password6 = None"
    by simp_all
  have "login_attempts pf d r (?xs @ [(t_gate6, t_now6, email6, password6)]) =
        session_of (login_post pf t_gate6 t_now6 d (r\<lparr>session := ?s5\<rparr>) email6 password6)"
    by (simp add: login_attempts_append)
  also have "\<dots> = ?s5\<lparr>failed_login := Some (fails (session r) + 6),
      login_locked_until := Some (t_now6 + 300000)\<rparr>"
    using login_fail_step [of "r\<lparr>session := ?s5\<rparr>" t_gate6 pf d email6 password6 t_now6]
      g s5 assms(1)
    by simp
  also have "\<dots> = (session r)\<lparr>failed_login := Some (fails (session r) + 6),
      login_locked_until := Some (t_now6 + 300000)\<rparr>"
    using s5 by (simp add: session.equality)
  finally show ?thesis using split l6 by simp
qed

text \<open>
  Claim C2, amended. For every session (its counter is never negative), after six
  consecutive failed \<open>POST /login\<close> attempts, that is, attempts not made during a
  lockout whose credentials match no user, the counter has grown by 6 and the lockout
  timestamp is the clock reading of the sixth attempt plus 5 minutes. Every attempt made
  while the lockout timestamp is in the future is rejected by the route without looking
  up the credentials and without writing: session and store stay as they are, and the
  page reports the wait \<open>ceil((lockedUntil - now) / 1000)\<close> in seconds. The only
  thing such a request reads from the users table is the row of the already signed-in
  user, which the middleware loads by id for the page; when the session has no user id,
  nothing of the store is read. For a fixed lockout timestamp the reported wait never
  grows as the clock advances, and it is smaller after every full second.
\<close>

theorem lockout_after_six_failures:
  "(0 \<le> fails (session r) \<and> length attempts = 6 \<and> all_failed pf d r attempts \<longrightarrow>
      login_attempts pf d r attempts =
        (session r)\<lparr>failed_login := Some (fails (session r) + 6),
                     login_locked_until := Some (fst (snd (last attempts)) + 5 * 60 * 1000)\<rparr>) \<and>
   (lock_in_force (session r) t_gate = Some l \<longrightarrow>
      login_post pf t_gate t_now d r email password =
        (Send (LoginView (req_user r) (Some (Too_many_attempts (waitSec l t_now)))),
         session r, d) \<and>
      handle pf d r (Post_login t_gate t_now email password) =
        (Send (LoginView (authed d (session r)) (Some (Too_many_attempts (waitSec l t_now)))),
         session r, d)) \<and>
   (lock_in_force (session r) t_gate = Some l \<and> uid (session r) = None \<longrightarrow>
      handle pf d r (Post_login t_gate t_now email password) =
        (Send (LoginView None (Some (Too_many_attempts (waitSec l t_now)))), session r, d)) \<and>
   (t \<le> t' \<longrightarrow> waitSec l t' \<le> waitSec l t) \<and>
   (t + 1000 \<le> t' \<longrightarrow> waitSec l t' < waitSec l t)"
proof (intro conjI impI)
  assume "0 \<le> fails (session r) \<and> length attempts = 6 \<and> all_failed pf d r attempts"
  then show "login_attempts pf d r attempts =
        (session r)\<lparr>failed_login := Some (fails (session r) + 6),
                     login_locked_until := Some (fst (snd (last attempts)) + 5 * 60 * 1000)\<rparr>"
    by (simp add: six_failures_lock)
next
  assume "lock_in_force (session r) t_gate = Some l"
  then show "login_post pf t_gate t_now d r email password =
        (Send (LoginView (req_user r) (Some (Too_many_attempts (waitSec l t_now)))),
         session r, d)"
    by (simp add: login_post_def)
next
  assume "lock_in_force (session r) t_gate = Some l"
  then show "handle pf d r (Post_login t_gate t_now email password) =
        (Send (LoginView (authed d (session r)) (Some (Too_many_attempts (waitSec l t_now)))),
         session r, d)"
    by (simp add: handle_def login_post_def)
next
  assume "lock_in_force (session r) t_gate = Some l \<and> uid (session r) = None"
  then show "handle pf d r (Post_login t_gate t_now email password) =
        (Send (LoginView None (Some (Too_many_attempts (waitSec l t_now)))), session r, d)"
    by (simp add: handle_def login_post_def authed_def)
next
  assume "t \<le> t'" then show "waitSec l t' \<le> waitSec l t" by (rule waitSec_mono)
next
  assume "t + 1000 \<le> t'" then show "waitSec l t' < waitSec l t" by (rule waitSec_strict)
qed

text \<open>
  Six wrong guesses for the seeded user from a fresh session, then a seventh attempt
  with the right password, which is rejected.
\<close>

theorem lockout_after_six_failures_witness:
  "all_failed demo_platform demo_db (demo_req empty_session)
     [(1000, 1001, Some ''user@smm.local'', Some ''guess1''),
      (2000, 2001, Some ''user@smm.local'', Some ''guess2''),
      (3000, 3001, Some ''user@smm.local'', Some ''guess3''),
      (4000, 4001, Some ''user@smm.local'', Some ''guess4''),
      (5000, 5001, Some ''user@smm.local'', Some ''guess5''),
      (6000, 6001, Some ''user@smm.local'', Some ''guess6'')] \<and>
   login_attempts demo_platform demo_db (demo_req empty_session)
     [(1000, 1001, Some ''user@smm.local'', Some ''guess1''),
      (2000, 2001, Some ''user@smm.local'', Some ''guess2''),
      (3000, 3001, Some ''user@smm.local'', Some ''guess3''),
      (4000, 4001, Some ''user@smm.local'', Some ''guess4''),
      (5000, 5001, Some ''user@smm.local'', Some ''guess5''),
      (6000, 6001, Some ''user@smm.local'', Some ''guess6'')] =
     \<lparr>uid = None, failed_login = Some 6, login_locked_until = Some 306001\<rparr> \<and>
   lock_in_force \<lparr>uid = None, failed_login = Some 6, login_locked_until = Some 306001\<rparr> 7000 =
     Some 306001 \<and>
   handle demo_platform demo_db
     (demo_req \<lparr>uid = None, failed_login = Some 6, login_locked_until = Some 306001\<rparr>)
     (Post_login 7000 7001 (Some ''user@smm.local'') (Some ''user123'')) =
     (Send (LoginView None (Some (Too_many_attempts 299))),
      \<lparr>uid = None, failed_login = Some 6, login_locked_until = Some 306001\<rparr>, demo_db) \<and>
   waitSec 306001 8001 \<le> waitSec 306001 7001 \<and>
   waitSec 306001 8001 < waitSec 306001 7001"
proof -
  let ?as = "[(1000, 1001, Some ''user@smm.local'', Some ''guess1''),
      (2000, 2001, Some ''user@smm.local'', Some ''guess2''),
      (3000, 3001, Some ''user@smm.local'', Some ''guess3''),
      (4000, 4001, Some ''user@smm.local'', Some ''guess4''),
      (5000, 5001, Some ''user@smm.local'', Some ''guess5''),
      (6000::int, 6001::int, Some ''user@smm.local'', Some ''guess6'')]"
  let ?s = "\<lparr>uid = None, failed_login = Some 6, login_locked_until = Some 306001\<rparr>"
  have c: "\<And>p. p \<noteq> ''user123'' \<Longrightarrow>
      credentials_row demo_platform demo_db (Some ''user@smm.local'') (Some p) = None"
    by (simp add: credentials_row_def or_else_def String_of_def)
       (simp add: demo_user_def demo_platform_def)
  have af: "all_failed demo_platform demo_db (demo_req empty_session) ?as"
    by (simp add: c login_post_def lock_in_force_def session_of_def Let_def empty_session_def)
  then have h1: "0 \<le> fails (session (demo_req empty_session)) \<and> length ?as = 6 \<and>
    all_failed demo_platform demo_db (demo_req empty_session) ?as"
    by (simp add: fails_def empty_session_def)
  have l: "lock_in_force (session (demo_req ?s)) 7000 = Some 306001"
    by (simp add: lock_in_force_def)
  have u: "lock_in_force (session (demo_req ?s)) 7000 = Some 306001 \<and> uid (session (demo_req ?s)) = None"
    by (simp add: lock_in_force_def)
  note t1 = lockout_after_six_failures [of "demo_req empty_session" ?as demo_platform demo_db]
  note t2 = lockout_after_six_failures [of "demo_req ?s" ?as demo_platform demo_db 7000 306001 7001
      "Some ''user@smm.local''" "Some ''user123''" 7001 8001]
  from t1 h1 have a: "login_attempts demo_platform demo_db (demo_req empty_session) ?as = ?s"
    by (simp add: empty_session_def fails_def)
  from l have b: "lock_in_force ?s 7000 = Some 306001" by simp
  from t2 u have e: "handle demo_platform demo_db (demo_req ?s)
     (Post_login 7000 7001 (Some ''user@smm.local'') (Some ''user123'')) =
     (Send (LoginView None (Some (Too_many_attempts (waitSec 306001 7001)))), ?s, demo_db)"
    by (simp add: authed_def)
  have w: "waitSec 306001 7001 = 299" by (simp add: waitSec_def)
  from t2 have m: "waitSec 306001 8001 \<le> waitSec 306001 7001" "waitSec 306001 8001 < waitSec 306001 7001"
    by simp_all
  from af a b e w m show ?thesis by simp
qed

text \<open>
  Claim C2 as stated, rejection without any read of the users store, fails for a
  session that is signed in and locked: the answer to the rejected attempt shows the
  signed-in user as the users table has it, and differs when the table differs.
\<close>

theorem lockout_reads_signed_in_user:
  "lock_in_force (session (demo_req (locked_session (Some 3)))) 1000 = Some 300000 \<and>
   response_of (handle demo_platform demo_db (demo_req (locked_session (Some 3)))
      (Post_login 1000 1000 (Some ''user@smm.local'') (Some ''guess''))) =
     Send (LoginView (Some demo_user) (Some (Too_many_attempts 299))) \<and>
   response_of (handle demo_platform (demo_db\<lparr>users := []\<rparr>) (demo_req (locked_session (Some 3)))
      (Post_login 1000 1000 (Some ''user@smm.local'') (Some ''guess''))) =
     Send (LoginView None (Some (Too_many_attempts 299))) \<and>
   response_of (handle demo_platform demo_db (demo_req (locked_session (Some 3)))
      (Post_login 1000 1000 (Some ''user@smm.local'') (Some ''guess''))) \<noteq>
   response_of (handle demo_platform (demo_db\<lparr>users := []\<rparr>) (demo_req (locked_session (Some 3)))
      (Post_login 1000 1000 (Some ''user@smm.local'') (Some ''guess'')))"
proof -
  have l: "lock_in_force (session (demo_req (locked_session (Some 3)))) 1000 = Some 300000"
    by (simp add: lock_in_force_def locked_session_def)
  have a1: "authed demo_db (locked_session (Some 3)) = Some demo_user"
    by (simp add: authed_def locked_session_def demo_db_def demo_admin_def demo_staff_def
        demo_user_def)
  have a2: "authed (demo_db\<lparr>users := []\<rparr>) (locked_session (Some 3)) = None"
    by (simp add: authed_def locked_session_def)
  have w: "waitSec 300000 1000 = 299" by (simp add: waitSec_def)
  from l a1 w have r1: "response_of (handle demo_platform demo_db (demo_req (locked_session (Some 3)))
      (Post_login 1000 1000 (Some ''user@smm.local'') (Some ''guess''))) =
     Send (LoginView (Some demo_user) (Some (Too_many_attempts 299)))"
    by (simp add: handle_def login_post_def response_of_def)
  from l a2 w have r2: "response_of (handle demo_platform (demo_db\<lparr>users := []\<rparr>) (demo_req (locked_session (Some 3)))
      (Post_login 1000 1000 (Some ''user@smm.local'') (Some ''guess''))) =
     Send (LoginView None (Some (Too_many_attempts 299)))"
    by (simp add: handle_def login_post_def response_of_def)
  from r1 r2 have "response_of (handle demo_platform demo_db (demo_req (locked_session (Some 3)))
      (Post_login 1000 1000 (Some ''user@smm.local'') (Some ''guess''))) \<noteq>
   response_of (handle demo_platform (demo_db\<lparr>users := []\<rparr>) (demo_req (locked_session (Some 3)))
      (Post_login 1000 1000 (Some ''user@smm.local'') (Some ''guess'')))"
    by (simp add: LoginView_def)
  with l r1 r2 show ?thesis by blast
qed

subsection \<open>Signup\<close>



subsection \<open>Login\<close>

text \<open>
  Claim C4, amended. For every \<open>POST /login\<close> made while no lockout is in force (the
  session has no lockout timestamp, or the clock has reached it) whose normalised
  address is that of a stored user and whose password digest is the stored one, the
  route sets the failed-attempt counter to 0, clears the lockout, stores the user's id in
  the session, leaves the store alone and redirects by role: admin to \<open>/dashboard\<close>,
  staff to \<open>/staff\<close>, any other role to \<open>/\<close>.
\<close>

theorem login_success_when_not_locked:
  assumes "lock_in_force (session r) t_gate = None"
    and "find (\<lambda>u. u_email u = toLowerCase pf (or_else email [])) (users d) = Some row"
    and "u_password_hash row = sha256 pf (String_of password)"
  shows "login_post pf t_gate t_now d r email password =
     (Redirect (if u_role row = ''admin'' then ''/dashboard''
                else if u_role row = ''staff'' then ''/staff'' else ''/''),
      (session r)\<lparr>failed_login := Some 0, login_locked_until := None, uid := Some (u_id row)\<rparr>,
      d)"
  using assms by (simp add: login_post_def credentials_row_def)

theorem login_success_when_not_locked_witness:
  "lock_in_force (session (demo_req empty_session)) 1000 = None \<and>
   find (\<lambda>u. u_email u = toLowerCase demo_platform (or_else (Some ''Admin@smm.local'') []))
     (users demo_db) = Some demo_admin \<and>
   u_password_hash demo_admin = sha256 demo_platform (String_of (Some ''admin123'')) \<and>
   login_post demo_platform 1000 1000 demo_db (demo_req empty_session)
     (Some ''Admin@smm.local'') (Some ''admin123'') =
     (Redirect ''/dashboard'',
      \<lparr>uid = Some 1, failed_login = Some 0, login_locked_until = None\<rparr>, demo_db)"
proof -
  have a: "lock_in_force (session (demo_req empty_session)) 1000 = None"
    by (simp add: lock_in_force_def empty_session_def)
  have b: "find (\<lambda>u. u_email u = toLowerCase demo_platform (or_else (Some ''Admin@smm.local'') []))
     (users demo_db) = Some demo_admin"
    by (simp add: or_else_def)
  have c: "u_password_hash demo_admin = sha256 demo_platform (String_of (Some ''admin123''))"
    by (simp add: demo_admin_def demo_platform_def String_of_def)
  from login_success_when_not_locked [OF a b c, of 1000]
  have "login_post demo_platform 1000 1000 demo_db (demo_req empty_session)
     (Some ''Admin@smm.local'') (Some ''admin123'') =
     (Redirect ''/dashboard'',
      \<lparr>uid = Some 1, failed_login = Some 0, login_locked_until = None\<rparr>, demo_db)"
    by (simp add: demo_admin_def empty_session_def)
  with a b c show ?thesis by blast
qed

text \<open>
  Claim C4 as stated, for every login with matching credentials, fails: the lockout
  gate comes first. With the lockout timestamp in the future, the right password of the
  seeded user is answered by the "too many attempts" page, and the session stays as it
  was, without a user id.
\<close>

theorem login_rejected_while_locked:
  "credentials_row demo_platform demo_db (Some ''user@smm.local'') (Some ''user123'') =
     Some demo_user \<and>
   login_post demo_platform 1000 1000 demo_db (demo_req (locked_session None))
     (Some ''user@smm.local'') (Some ''user123'') =
     (Send (LoginView None (Some (Too_many_attempts 299))), locked_session None, demo_db)"
  by (simp add: credentials_row_def login_post_def lock_in_force_def locked_session_def
      waitSec_def or_else_def String_of_def)
     (simp add: demo_user_def demo_platform_def)

subsection \<open>Admin dashboard\<close>

lemma filter_key_distinct:
  "distinct (map f xs) \<Longrightarrow>
     filter (\<lambda>x. f x = k) xs = (case find (\<lambda>x. f x = k) xs of None \<Rightarrow> [] | Some x \<Rightarrow> [x])"
proof (induction xs)
  case Nil
  then show ?case by simp
next
  case (Cons x xs)
  show ?case
  proof (cases "f x = k")
    case True
    with Cons.prems have "k \<notin> f ` set xs" by auto
    then have "filter (\<lambda>x. f x = k) xs = []" by (auto simp: filter_empty_conv)
    with True show ?thesis by simp
  next
    case False
    with Cons show ?thesis by simp
  qed
qed

lemma paid_prices:
  assumes "distinct (map pl_id (plans d))"
  shows "sum_list (map (\<lambda>(od, p). pl_price_usd p)
           (filter (\<lambda>(od, p). o_status od = ''paid'')
              (concat (map (\<lambda>od. map (\<lambda>p. (od, p)) (filter (\<lambda>p. pl_id p = o_plan_id od) (plans d))) os)))) =
         (\<Sum>od \<leftarrow> filter (\<lambda>od. o_status od = ''paid'') os. plan_price d (o_plan_id od))"
proof (induction os)
  case Nil
  then show ?case by simp
next
  case (Cons od os)
  have "filter (\<lambda>p. pl_id p = o_plan_id od) (plans d) =
        (case find (\<lambda>p. pl_id p = o_plan_id od) (plans d) of None \<Rightarrow> [] | Some p \<Rightarrow> [p])"
    using assms by (rule filter_key_distinct)
  with Cons show ?case
    by (simp add: plan_price_def split: option.splits)
qed

text \<open>
  Claim C5. In every store (plan ids are a primary key, hence distinct), the dashboard's
  \<open>totalAccounting\<close> is the sum, over exactly the orders whose status is the string
  \<open>paid\<close>, of the price of the order's plan, and it is 0 when no order is paid. An
  admin's dashboard page shows these aggregates. Prices are reals here; the rounding of
  the store's doubles is not modelled.
\<close>

theorem total_accounting_is_paid_sum:
  assumes "distinct (map pl_id (plans d))"
  shows "totalAccounting (dashboard_stats d) =
           (\<Sum>od \<leftarrow> filter (\<lambda>od. o_status od = ''paid'') (orders d). plan_price d (o_plan_id od)) \<and>
         (filter (\<lambda>od. o_status od = ''paid'') (orders d) = [] \<longrightarrow>
            totalAccounting (dashboard_stats d) = 0) \<and>
         (authed d (session r) = Some me \<and> u_role me = ''admin'' \<longrightarrow>
            response_of (dashboard_get d r) = Send (AdminDashboardPage me (dashboard_stats d)))"
proof -
  let ?rows = "filter (\<lambda>(od, p). o_status od = ''paid'') (orders_join_plans d)"
  have s: "sum_list (map (\<lambda>(od, p). pl_price_usd p) ?rows) =
        (\<Sum>od \<leftarrow> filter (\<lambda>od. o_status od = ''paid'') (orders d). plan_price d (o_plan_id od))"
    unfolding orders_join_plans_def using assms by (rule paid_prices)
  have "or_zero (sql_sum (map (\<lambda>(od, p). pl_price_usd p) ?rows)) =
        sum_list (map (\<lambda>(od, p). pl_price_usd p) ?rows)"
    by (simp add: or_zero_def sql_sum_def)
  with s have t: "totalAccounting (dashboard_stats d) =
      (\<Sum>od \<leftarrow> filter (\<lambda>od. o_status od = ''paid'') (orders d). plan_price d (o_plan_id od))"
    by (simp add: dashboard_stats_def)
  have "authed d (session r) = Some me \<and> u_role me = ''admin'' \<longrightarrow>
            response_of (dashboard_get d r) = Send (AdminDashboardPage me (dashboard_stats d))"
    by (simp add: dashboard_get_def requireRole_def response_of_def)
  with t show ?thesis by simp
qed

theorem total_accounting_is_paid_sum_witness:
  "distinct (map pl_id (plans demo_db)) \<and>
   totalAccounting (dashboard_stats demo_db) = 69 \<and>
   filter (\<lambda>od. o_status od = ''paid'') (orders (demo_db\<lparr>orders := []\<rparr>)) = [] \<and>
   totalAccounting (dashboard_stats (demo_db\<lparr>orders := []\<rparr>)) = 0"
proof -
  have a: "distinct (map pl_id (plans demo_db))" by (simp add: demo_db_def)
  have b: "distinct (map pl_id (plans (demo_db\<lparr>orders := []\<rparr>)))" by (simp add: demo_db_def)
  from total_accounting_is_paid_sum [OF a]
  have "totalAccounting (dashboard_stats demo_db) = 69"
    by (simp add: demo_db_def plan_price_def)
  moreover from total_accounting_is_paid_sum [OF b]
  have "totalAccounting (dashboard_stats (demo_db\<lparr>orders := []\<rparr>)) = 0"
    by simp
  ultimately show ?thesis using a by simp
qed

subsection \<open>Staff delete\<close>

text \<open>
  Claim C6. For every user id \<open>k\<close>, \<open>/staff/delete\<close> by a staff or admin principal
  removes the user row with that id and every \<open>statuses\<close>, \<open>targets\<close> and \<open>metrics\<close>
  row of that user; the rows of other users stay, in their order. The \<open>orders\<close> and
  \<open>tickets\<close> tables stay as they were, rows of the deleted user included, and so
  do the other tables.
\<close>

theorem staff_delete_cascade:
  assumes "authed d (session r) = Some me" and "u_role me \<in> {''staff'', ''admin''}"
  shows "response_of (staff_delete d r (Val (of_int k))) = Redirect ''/staff'' \<and>
         session_of (staff_delete d r (Val (of_int k))) = session r \<and>
         db_of (staff_delete d r (Val (of_int k))) =
           d\<lparr>users := filter (\<lambda>u. u_id u \<noteq> k) (users d),
             targets := filter (\<lambda>t. tg_user_id t \<noteq> k) (targets d),
             statuses := filter (\<lambda>s. st_user_id s \<noteq> k) (statuses d),
             metrics := filter (\<lambda>m. m_user_id m \<noteq> Val (of_int k)) (metrics d)\<rparr> \<and>
         orders (db_of (staff_delete d r (Val (of_int k)))) = orders d \<and>
         tickets (db_of (staff_delete d r (Val (of_int k)))) = tickets d \<and>
         posts (db_of (staff_delete d r (Val (of_int k)))) = posts d \<and>
         plans (db_of (staff_delete d r (Val (of_int k)))) = plans d \<and>
         subscribers (db_of (staff_delete d r (Val (of_int k)))) = subscribers d"
proof -
  from assms have "requireRole d r [''staff'', ''admin''] = Inr me"
    by (intro requireRole_granted) auto
  then show ?thesis
    by (simp add: staff_delete_def delete_user_def response_of_def session_of_def db_of_def)
qed

theorem staff_delete_cascade_witness:
  "authed demo_db (session (demo_req (signed_in 2))) = Some demo_staff \<and>
   u_role demo_staff \<in> {''staff'', ''admin''} \<and>
   users (db_of (staff_delete demo_db (demo_req (signed_in 2)) (Val 3))) = [demo_admin, demo_staff] \<and>
   statuses (db_of (staff_delete demo_db (demo_req (signed_in 2)) (Val 3))) =
     [\<lparr>st_id = 1, st_user_id = 1\<rparr>, \<lparr>st_id = 2, st_user_id = 2\<rparr>] \<and>
   metrics (db_of (staff_delete demo_db (demo_req (signed_in 2)) (Val 3))) =
     [\<lparr>m_id = 1, m_user_id = Val 1, m_likes = Val 60, m_follows = Val 25\<rparr>,
      \<lparr>m_id = 2, m_user_id = Val 2, m_likes = Val 70, m_follows = Val 30\<rparr>] \<and>
   orders (db_of (staff_delete demo_db (demo_req (signed_in 2)) (Val 3))) = orders demo_db \<and>
   tickets (db_of (staff_delete demo_db (demo_req (signed_in 2)) (Val 3))) = tickets demo_db \<and>
   map o_user_id (orders demo_db) = [3, 3] \<and> map t_user_id (tickets demo_db) = [Some 3]"
proof -
  have a: "authed demo_db (session (demo_req (signed_in 2))) = Some demo_staff" by simp
  have b: "u_role demo_staff \<in> {''staff'', ''admin''}" by (simp add: demo_staff_def)
  note t = staff_delete_cascade [OF a b, of 3]
  from t have "users (db_of (staff_delete demo_db (demo_req (signed_in 2)) (Val 3))) = [demo_admin, demo_staff]"
    by (simp add: demo_db_def demo_admin_def demo_staff_def demo_user_def)
  moreover from t have "statuses (db_of (staff_delete demo_db (demo_req (signed_in 2)) (Val 3))) =
     [\<lparr>st_id = 1, st_user_id = 1\<rparr>, \<lparr>st_id = 2, st_user_id = 2\<rparr>]"
    by (simp add: demo_db_def)
  moreover from t have "metrics (db_of (staff_delete demo_db (demo_req (signed_in 2)) (Val 3))) =
     [\<lparr>m_id = 1, m_user_id = Val 1, m_likes = Val 60, m_follows = Val 25\<rparr>,
      \<lparr>m_id = 2, m_user_id = Val 2, m_likes = Val 70, m_follows = Val 30\<rparr>]"
    by (simp add: demo_db_def)
  moreover from t have "orders (db_of (staff_delete demo_db (demo_req (signed_in 2)) (Val 3))) = orders demo_db"
    "tickets (db_of (staff_delete demo_db (demo_req (signed_in 2)) (Val 3))) = tickets demo_db"
    by simp_all
  moreover have "map o_user_id (orders demo_db) = [3, 3]" "map t_user_id (tickets demo_db) = [Some 3]"
    by (simp_all add: demo_db_def)
  ultimately show ?thesis using a b by blast
qed

subsection \<open>Blog views\<close>

lemma views_kept_same: "posts d' = posts d \<Longrightarrow> views_kept d d'"
  by (simp add: views_kept_def)

lemma views_kept_trans:
  assumes "views_kept a b" and "views_kept b c"
  shows "views_kept a c"
  unfolding views_kept_def
proof (intro conjI allI impI)
  from assms show "length (posts a) \<le> length (posts c)"
    by (simp add: views_kept_def)
next
  fix i assume i: "i < length (posts a)"
  with assms have ib: "i < length (posts b)" by (simp add: views_kept_def)
  from assms(1) i have 1: "po_id (posts b ! i) = po_id (posts a ! i)"
    "po_views (posts a ! i) \<le> po_views (posts b ! i)"
    by (simp_all add: views_kept_def)
  from assms(2) ib have 2: "po_id (posts c ! i) = po_id (posts b ! i)"
    "po_views (posts b ! i) \<le> po_views (posts c ! i)"
    by (simp_all add: views_kept_def)
  from 1 2 show "po_id (posts c ! i) = po_id (posts a ! i)" by simp
  from 1 2 show "po_views (posts a ! i) \<le> po_views (posts c ! i)" by simp
qed

lemma views_kept_blog: "views_kept d (db_of (blog_get d r idn))"
  by (simp add: views_kept_def blog_get_def db_of_def Let_def split: option.splits)

lemma views_kept_create_post:
  "views_kept d (db_of (admin_create_post d r title img excerpt body created))"
  by (simp add: views_kept_def admin_create_post_def db_of_def insert_post_def Let_def
      nth_append split: sum.splits)

lemma views_kept_handle: "views_kept d (db_of (handle pf d r rq))"
proof (cases rq)
  case (Get_blog idn)
  then show ?thesis by (simp add: handle_def views_kept_blog)
next
  case (Post_admin_create_post title img excerpt body created)
  then show ?thesis by (simp add: handle_def views_kept_create_post)
qed (simp_all add: handle_def views_kept_same frame_simple frame_guarded frame_performance
      frame_posts_signup frame_posts_staff_add)

lemma views_kept_serve: "views_kept d (serve pf d reqs)"
proof (induction reqs arbitrary: d)
  case Nil
  then show ?case by (simp add: views_kept_same)
next
  case (Cons a reqs)
  obtain r rq where a: "a = (r, rq)" by (cases a) auto
  have "views_kept d (db_of (handle pf d r rq))" by (rule views_kept_handle)
  moreover have "views_kept (db_of (handle pf d r rq)) (serve pf (db_of (handle pf d r rq)) reqs)"
    by (rule Cons.IH)
  ultimately show ?case using a by (auto intro: views_kept_trans)
qed

lemma find_incremented:
  "distinct (map po_id ps) \<Longrightarrow> p \<in> set ps \<Longrightarrow>
     find (\<lambda>q. po_id q = po_id p)
       (map (\<lambda>q. if po_id q = po_id p then q\<lparr>po_views := po_views q + 1\<rparr> else q) ps) =
     Some (p\<lparr>po_views := po_views p + 1\<rparr>)"
  by (induction ps) (auto simp add: image_iff)

lemma map_unmatched:
  "\<forall>q \<in> set ps. \<not> P q \<Longrightarrow> map (\<lambda>q. if P q then g q else q) ps = ps"
  by (induction ps) auto

text \<open>
  Claim C7, amended. \<open>GET /blog/:id\<close> for an existing post (post ids are a primary
  key) adds exactly 1 to the view counter of that post and changes nothing else, and
  answers with the page of that post. For an id that no post has, the answer is 404 and
  the store is unchanged. Over any sequence of requests to the routes no post disappears
  and no view counter decreases. The page does not show the counter: \<open>BlogView\<close> gives
  the same page whatever the counter is.
\<close>

theorem blog_view_counts:
  "(distinct (map po_id (posts d)) \<and> p \<in> set (posts d) \<longrightarrow>
      response_of (blog_get d r (Val (of_int (po_id p)))) = Send (BlogView (req_user r) p) \<and>
      session_of (blog_get d r (Val (of_int (po_id p)))) = session r \<and>
      db_of (blog_get d r (Val (of_int (po_id p)))) =
        d\<lparr>posts := map (\<lambda>q. if po_id q = po_id p then q\<lparr>po_views := po_views q + 1\<rparr> else q)
                      (posts d)\<rparr>) \<and>
   ((\<forall>q \<in> set (posts d). \<not> id_is idn (po_id q)) \<longrightarrow>
      blog_get d r idn = (Status 404 ''Not found'', session r, d)) \<and>
   views_kept d (serve pf d reqs) \<and>
   BlogView u (q\<lparr>po_views := n\<rparr>) = BlogView u q"
proof (intro conjI impI)
  assume a: "distinct (map po_id (posts d)) \<and> p \<in> set (posts d)"
  then have f: "find (\<lambda>q. po_id q = po_id p)
       (map (\<lambda>q. if po_id q = po_id p then q\<lparr>po_views := po_views q + 1\<rparr> else q) (posts d)) =
     Some (p\<lparr>po_views := po_views p + 1\<rparr>)"
    by (simp add: find_incremented)
  then show "response_of (blog_get d r (Val (of_int (po_id p)))) = Send (BlogView (req_user r) p)"
    by (simp add: blog_get_def response_of_def Let_def BlogView_def)
  from f show "session_of (blog_get d r (Val (of_int (po_id p)))) = session r"
    by (simp add: blog_get_def session_of_def Let_def)
  from f show "db_of (blog_get d r (Val (of_int (po_id p)))) =
        d\<lparr>posts := map (\<lambda>q. if po_id q = po_id p then q\<lparr>po_views := po_views q + 1\<rparr> else q)
                      (posts d)\<rparr>"
    by (simp add: blog_get_def db_of_def Let_def)
next
  assume a: "\<forall>q \<in> set (posts d). \<not> id_is idn (po_id q)"
  then have m: "map (\<lambda>p. if id_is idn (po_id p) then p\<lparr>po_views := po_views p + 1\<rparr> else p) (posts d) =
      posts d"
    by (rule map_unmatched)
  from a have "find (\<lambda>p. id_is idn (po_id p)) (posts d) = None"
    by (simp add: find_None_iff)
  with m show "blog_get d r idn = (Status 404 ''Not found'', session r, d)"
    by (simp add: blog_get_def Let_def)
next
  show "views_kept d (serve pf d reqs)" by (rule views_kept_serve)
next
  show "BlogView u (q\<lparr>po_views := n\<rparr>) = BlogView u q" by (simp add: BlogView_def)
qed

theorem blog_view_counts_witness:
  "distinct (map po_id (posts demo_db)) \<and> demo_post \<in> set (posts demo_db) \<and>
   response_of (blog_get demo_db (demo_req empty_session) (Val 1)) =
     Send (BlogView None demo_post) \<and>
   map po_views (posts (db_of (blog_get demo_db (demo_req empty_session) (Val 1)))) = [5] \<and>
   blog_get demo_db (demo_req empty_session) (Val 9) =
     (Status 404 ''Not found'', empty_session, demo_db) \<and>
   views_kept demo_db (serve demo_platform demo_db
     [(demo_req empty_session, Get_blog (Val 1)), (demo_req (signed_in 3), Get_blog (Val 1))])"
proof -
  have a: "distinct (map po_id (posts demo_db)) \<and> demo_post \<in> set (posts demo_db)"
    by (simp add: demo_db_def)
  have b: "\<forall>q \<in> set (posts demo_db). \<not> id_is (Val 9) (po_id q)"
    by (simp add: demo_db_def demo_post_def id_is_def)
  note t = blog_view_counts [of demo_db demo_post "demo_req empty_session" "Val 9"
      demo_platform
      "[(demo_req empty_session, Get_blog (Val 1)), (demo_req (signed_in 3), Get_blog (Val 1))]"]
  from t a have r: "response_of (blog_get demo_db (demo_req empty_session) (Val 1)) =
     Send (BlogView None demo_post)"
    by (simp add: demo_post_def)
  from t a have "db_of (blog_get demo_db (demo_req empty_session) (Val 1)) =
     demo_db\<lparr>posts := map (\<lambda>q. if po_id q = po_id demo_post then q\<lparr>po_views := po_views q + 1\<rparr> else q)
                      (posts demo_db)\<rparr>"
    by (simp add: demo_post_def)
  then have v: "map po_views (posts (db_of (blog_get demo_db (demo_req empty_session) (Val 1)))) = [5]"
    by (simp add: demo_db_def demo_post_def)
  from t b have n: "blog_get demo_db (demo_req empty_session) (Val 9) =
     (Status 404 ''Not found'', empty_session, demo_db)"
    by simp
  from t have k: "views_kept demo_db (serve demo_platform demo_db
     [(demo_req empty_session, Get_blog (Val 1)), (demo_req (signed_in 3), Get_blog (Val 1))])"
    by blast
  from a r v n k show ?thesis by blast
qed

text \<open>
  Claim C7 as stated, the rendered page reflects the incremented count, fails: the
  same post with counters that become 5 and 42 is answered by one and the same page.
\<close>

theorem blog_page_hides_count:
  "map po_views (posts (db_of (blog_get demo_db (demo_req empty_session) (Val 1)))) = [5] \<and>
   map po_views (posts (db_of (blog_get (demo_db\<lparr>posts := [demo_post\<lparr>po_views := 41\<rparr>]\<rparr>)
      (demo_req empty_session) (Val 1)))) = [42] \<and>
   response_of (blog_get demo_db (demo_req empty_session) (Val 1)) =
   response_of (blog_get (demo_db\<lparr>posts := [demo_post\<lparr>po_views := 41\<rparr>]\<rparr>)
      (demo_req empty_session) (Val 1))"
  by (simp add: blog_get_def db_of_def response_of_def Let_def demo_db_def demo_post_def
      BlogView_def id_is_def)

subsection \<open>Checkout\<close>

text \<open>
  Claim C8. A \<open>POST /checkout\<close> by an authenticated user whose \<open>plan_id\<close> is the id of
  a plan inserts exactly one order, of that user and plan, with status \<open>paid\<close>, and
  changes nothing else in the store; no payment is attempted. When nobody is signed in
  the answer is a redirect to \<open>/login\<close> (whether or not the plan exists), and when the
  user is signed in and no plan has the id it is 404; in both cases the store is
  unchanged.
\<close>

theorem checkout_inserts_paid_order:
  "(authed d (session r) = Some u \<and> k \<in> set (map pl_id (plans d)) \<longrightarrow>
      response_of (handle pf d r (Post_checkout (Val (of_int k)) ig_username notes)) =
        Redirect (if u_role u = ''admin'' then ''/dashboard'' else ''/'') \<and>
      db_of (handle pf d r (Post_checkout (Val (of_int k)) ig_username notes)) =
        d\<lparr>orders := orders d @
             [\<lparr>o_id = autoinc (orders_seq d) (map o_id (orders d)), o_user_id = u_id u,
               o_plan_id = k, o_ig_username = or_else ig_username [],
               o_notes = or_else notes [], o_status = ''paid''\<rparr>],
           orders_seq := autoinc (orders_seq d) (map o_id (orders d))\<rparr>) \<and>
   (authed d (session r) = None \<longrightarrow>
      handle pf d r (Post_checkout plan_id ig_username notes) =
        (Redirect ''/login'', session r, d)) \<and>
   (authed d (session r) = Some u \<and> (\<forall>p \<in> set (plans d). \<not> id_is plan_id (pl_id p)) \<longrightarrow>
      handle pf d r (Post_checkout plan_id ig_username notes) =
        (Status 404 ''Plan not found'', session r, d))"
proof (intro conjI impI)
  assume a: "authed d (session r) = Some u \<and> k \<in> set (map pl_id (plans d))"
  then obtain p where p: "find (\<lambda>p. pl_id p = k) (plans d) = Some p" "pl_id p = k"
    using find_id_member [of k pl_id "plans d"] by blast
  with a show "response_of (handle pf d r (Post_checkout (Val (of_int k)) ig_username notes)) =
        Redirect (if u_role u = ''admin'' then ''/dashboard'' else ''/'')"
    by (simp add: handle_def checkout_post_def response_of_def)
  from a p show "db_of (handle pf d r (Post_checkout (Val (of_int k)) ig_username notes)) =
        d\<lparr>orders := orders d @
             [\<lparr>o_id = autoinc (orders_seq d) (map o_id (orders d)), o_user_id = u_id u,
               o_plan_id = k, o_ig_username = or_else ig_username [],
               o_notes = or_else notes [], o_status = ''paid''\<rparr>],
           orders_seq := autoinc (orders_seq d) (map o_id (orders d))\<rparr>"
    by (simp add: handle_def checkout_post_def db_of_def insert_order_def Let_def)
next
  assume "authed d (session r) = None"
  then show "handle pf d r (Post_checkout plan_id ig_username notes) =
        (Redirect ''/login'', session r, d)"
    by (simp add: handle_def checkout_post_def)
next
  assume a: "authed d (session r) = Some u \<and> (\<forall>p \<in> set (plans d). \<not> id_is plan_id (pl_id p))"
  then have "find (\<lambda>p. id_is plan_id (pl_id p)) (plans d) = None"
    by (simp add: find_None_iff)
  with a show "handle pf d r (Post_checkout plan_id ig_username notes) =
        (Status 404 ''Plan not found'', session r, d)"
    by (simp add: handle_def checkout_post_def)
qed

theorem checkout_inserts_paid_order_witness:
  "authed demo_db (session (demo_req (signed_in 3))) = Some demo_user \<and>
   (2::int) \<in> set (map pl_id (plans demo_db)) \<and>
   response_of (handle demo_platform demo_db (demo_req (signed_in 3))
      (Post_checkout (Val 2) (Some ''@demouser'') None)) = Redirect ''/'' \<and>
   orders (db_of (handle demo_platform demo_db (demo_req (signed_in 3))
      (Post_checkout (Val 2) (Some ''@demouser'') None))) =
     orders demo_db @
       [\<lparr>o_id = 3, o_user_id = 3, o_plan_id = 2, o_ig_username = ''@demouser'', o_notes = [],
         o_status = ''paid''\<rparr>] \<and>
   authed demo_db (session (demo_req empty_session)) = None \<and>
   handle demo_platform demo_db (demo_req empty_session) (Post_checkout (Val 2) None None) =
     (Redirect ''/login'', empty_session, demo_db) \<and>
   handle demo_platform demo_db (demo_req (signed_in 3)) (Post_checkout (Val 7) None None) =
     (Status 404 ''Plan not found'', signed_in 3, demo_db)"
proof -
  have a: "authed demo_db (session (demo_req (signed_in 3))) = Some demo_user" by simp
  have b: "(2::int) \<in> set (map pl_id (plans demo_db))" by (simp add: demo_db_def)
  have c: "authed demo_db (session (demo_req empty_session)) = None" by simp
  have e: "\<forall>p \<in> set (plans demo_db). \<not> id_is (Val 7) (pl_id p)"
    by (simp add: demo_db_def id_is_def)
  note t1 = checkout_inserts_paid_order [of demo_db "demo_req (signed_in 3)" demo_user 2
      demo_platform "Some ''@demouser''" None "Val 7"]
  note t2 = checkout_inserts_paid_order [of demo_db "demo_req empty_session" demo_user 2
      demo_platform None None "Val 2"]
  from t1 a b have "response_of (handle demo_platform demo_db (demo_req (signed_in 3))
      (Post_checkout (Val 2) (Some ''@demouser'') None)) = Redirect ''/''"
    by (simp add: demo_user_def)
  moreover from t1 a b have "orders (db_of (handle demo_platform demo_db (demo_req (signed_in 3))
      (Post_checkout (Val 2) (Some ''@demouser'') None))) =
     orders demo_db @
       [\<lparr>o_id = 3, o_user_id = 3, o_plan_id = 2, o_ig_username = ''@demouser'', o_notes = [],
         o_status = ''paid''\<rparr>]"
    by (simp add: demo_user_def demo_db_def autoinc_def or_else_def)
  moreover from t2 c have "handle demo_platform demo_db (demo_req empty_session) (Post_checkout (Val 2) None None) =
     (Redirect ''/login'', empty_session, demo_db)"
    by simp
  moreover from checkout_inserts_paid_order [of demo_db "demo_req (signed_in 3)" demo_user 2
      demo_platform None None "Val 7"] a e
  have "handle demo_platform demo_db (demo_req (signed_in 3)) (Post_checkout (Val 7) None None) =
     (Status 404 ''Plan not found'', signed_in 3, demo_db)"
    by simp
  ultimately show ?thesis using a b c by blast
qed

subsection \<open>Staff metrics\<close>

lemma staff_metrics_appends:
  assumes "authed d (session r) = Some me" and "u_role me \<in> {''staff'', ''admin''}"
    and "truthy user_id"
  shows "staff_metrics d r user_id likes_field follows_field =
           (Redirect ''/staff'', session r,
            d\<lparr>metrics := metrics d @
                [\<lparr>m_id = autoinc (metrics_seq d) (map m_id (metrics d)), m_user_id = user_id,
                  m_likes = Math_max (Val 0) (number_or_zero likes_field),
                  m_follows = Math_max (Val 0) (number_or_zero follows_field)\<rparr>],
              metrics_seq := autoinc (metrics_seq d) (map m_id (metrics d))\<rparr>)"
proof -
  from assms have "requireRole d r [''staff'', ''admin''] = Inr me"
    by (intro requireRole_granted) auto
  with assms show ?thesis
    by (simp add: staff_metrics_def insert_metric_def Let_def)
qed

lemma staff_metrics_clamped:
  assumes "authed d (session r) = Some me" and "u_role me \<in> {''staff'', ''admin''}"
    and "truthy user_id"
    and "number_or_zero likes_field = Val a" and "number_or_zero follows_field = Val b"
  shows "db_of (staff_metrics d r user_id likes_field follows_field) =
           d\<lparr>metrics := metrics d @
                [\<lparr>m_id = autoinc (metrics_seq d) (map m_id (metrics d)), m_user_id = user_id,
                  m_likes = Val (max 0 a), m_follows = Val (max 0 b)\<rparr>],
             metrics_seq := autoinc (metrics_seq d) (map m_id (metrics d))\<rparr>"
proof -
  from assms have "requireRole d r [''staff'', ''admin''] = Inr me"
    by (intro requireRole_granted) auto
  with assms show ?thesis
    by (simp add: staff_metrics_def db_of_def insert_metric_def Let_def)
qed

text \<open>
  Claim C9. \<open>/staff/metrics\<close> by a staff or admin principal with a number other than 0
  as \<open>user_id\<close> always inserts one new \<open>metrics\<close> row and touches no other row
  (\<open>staff_metrics_appends\<close>), and for numeric deltas the row holds them clamped at zero
  (\<open>staff_metrics_clamped\<close>). The
  clamp \<open>Math.max(0, x)\<close> does not make every value non-negative: for a field whose
  text is no number, such as \<open>add_likes=abc\<close>, \<open>Number\<close> gives \<open>NaN\<close>,
  \<open>Math.max(0, NaN)\<close> is \<open>NaN\<close>, and the row is inserted with that value (stored as
  NULL). The theorem evaluates the route there, for the staff user of the small store.
\<close>

theorem staff_metrics_not_a_number:
  "metrics (db_of (staff_metrics demo_db (demo_req (signed_in 2)) (Val 3) (Some NaN) (Some (Val 5)))) =
     metrics demo_db @ [\<lparr>m_id = 4, m_user_id = Val 3, m_likes = NaN, m_follows = Val 5\<rparr>]"
proof -
  have "requireRole demo_db (demo_req (signed_in 2)) [''staff'', ''admin''] = Inr demo_staff"
    by (rule requireRole_granted) (simp_all add: demo_staff_def)
  then show ?thesis
    by (simp add: staff_metrics_def db_of_def insert_metric_def Let_def truthy_def
        number_or_zero_def demo_db_def autoinc_def)
qed

subsection \<open>escapeHtml\<close>

lemma entity_of_simps:
  "entity_of (CHR ''&'') = ''&amp;''"
  "entity_of (CHR ''<'') = ''&lt;''"
  "entity_of (CHR ''>'') = ''&gt;''"
  "entity_of (CHR 0x22) = ''&quot;''"
  "entity_of (CHR 0x27) = ''&#39;''"
  by (simp_all add: entity_of_def entity_table_def)

lemma entity_text_step:
  assumes "entity_text rest"
  shows "entity_text ((if html_special c then entity_of c else [c]) @ rest)"
proof (cases "html_special c")
  case False
  then have "c \<noteq> CHR ''&''" by (auto simp: html_special_def)
  with False assms show ?thesis by simp
next
  case True
  then consider "c = CHR ''&''" | "c = CHR ''<''" | "c = CHR ''>''"
    | "c = CHR 0x22" | "c = CHR 0x27"
    by (auto simp: html_special_def)
  then show ?thesis
    using assms by cases (simp_all add: html_special_def entity_of_simps entity_tails_def)
qed

lemma entity_text_replace: "entity_text (replace_special s)"
  unfolding replace_special_def
  by (induction s) (simp_all add: entity_text_step del: entity_text.simps(2))

lemma entity_of_plain:
  "html_special c \<Longrightarrow> d \<in> set (entity_of c) \<Longrightarrow>
     d \<notin> {CHR ''<'', CHR ''>'', CHR 0x22, CHR 0x27}"
  by (auto simp: html_special_def entity_of_simps)

lemma replace_special_plain:
  "d \<in> set (replace_special s) \<Longrightarrow> d \<notin> {CHR ''<'', CHR ''>'', CHR 0x22, CHR 0x27}"
  unfolding replace_special_def
proof (induction s)
  case Nil
  then show ?case by simp
next
  case (Cons c s)
  show ?case
  proof (cases "html_special c")
    case True
    with Cons entity_of_plain [OF True, of d] show ?thesis by auto
  next
    case False
    with Cons show ?thesis by (auto simp: html_special_def)
  qed
qed

text \<open>
  Claim C10. \<open>escapeHtml\<close> is total: \<open>null\<close> and \<open>undefined\<close> give the empty string.
  On a string it replaces each character by its entity when it is one of
  \<open>& < > " '\<close> and keeps it otherwise. No output contains \<open>< > " '\<close>, and every
  ampersand of an output starts one of \<open>&amp; &lt; &gt; &quot; &#39;\<close>
  (\<open>entity_text\<close>).
\<close>

theorem escapeHtml_total_and_escaped:
  "escapeHtml Null = [] \<and> escapeHtml Undefined = [] \<and>
   escapeHtml (Str s) =
     concat (map (\<lambda>c. if c = CHR ''&'' then ''&amp;'' else if c = CHR ''<'' then ''&lt;''
                      else if c = CHR ''>'' then ''&gt;'' else if c = CHR 0x22 then ''&quot;''
                      else if c = CHR 0x27 then ''&#39;'' else [c]) s) \<and>
   (\<forall>d \<in> set (escapeHtml v). d \<notin> {CHR ''<'', CHR ''>'', CHR 0x22, CHR 0x27}) \<and>
   entity_text (escapeHtml v)"
proof -
  have "(\<lambda>c. if html_special c then entity_of c else [c]) =
        (\<lambda>c. if c = CHR ''&'' then ''&amp;'' else if c = CHR ''<'' then ''&lt;''
              else if c = CHR ''>'' then ''&gt;'' else if c = CHR 0x22 then ''&quot;''
              else if c = CHR 0x27 then ''&#39;'' else [c])"
    by (rule ext) (auto simp: html_special_def entity_of_simps)
  then have "escapeHtml (Str s) =
     concat (map (\<lambda>c. if c = CHR ''&'' then ''&amp;'' else if c = CHR ''<'' then ''&lt;''
                      else if c = CHR ''>'' then ''&gt;'' else if c = CHR 0x22 then ''&quot;''
                      else if c = CHR 0x27 then ''&#39;'' else [c]) s)"
    by (simp add: escapeHtml_def or_empty_def replace_special_def)
  moreover have "escapeHtml Null = []" "escapeHtml Undefined = []"
    by (simp_all add: escapeHtml_def or_empty_def replace_special_def)
  moreover have "\<forall>d \<in> set (escapeHtml v). d \<notin> {CHR ''<'', CHR ''>'', CHR 0x22, CHR 0x27}"
    using replace_special_plain unfolding escapeHtml_def by blast
  moreover have "entity_text (escapeHtml v)"
    by (simp add: escapeHtml_def entity_text_replace)
  ultimately show ?thesis by blast
qed

theorem escapeHtml_total_and_escaped_witness:
  "escapeHtml (Str [CHR ''<'', CHR 0x22, CHR ''&'', CHR ''x'', CHR 0x27, CHR ''>'']) =
     ''&lt;&quot;&amp;x&#39;&gt;'' \<and>
   CHR ''<'' \<notin> set (escapeHtml (Str [CHR ''<'', CHR 0x22, CHR ''&'', CHR ''x'', CHR 0x27, CHR ''>''])) \<and>
   entity_text (escapeHtml (Str [CHR ''<'', CHR 0x22, CHR ''&'', CHR ''x'', CHR 0x27, CHR ''>'']))"
proof -
  let ?s = "[CHR ''<'', CHR 0x22, CHR ''&'', CHR ''x'', CHR 0x27, CHR ''>'']"
  note t = escapeHtml_total_and_escaped [of ?s "Str ?s"]
  from t have "escapeHtml (Str ?s) = ''&lt;&quot;&amp;x&#39;&gt;''"
    by (simp del: entity_text.simps)
  moreover from t have "CHR ''<'' \<notin> set (escapeHtml (Str ?s))"
    by blast
  moreover from t have "entity_text (escapeHtml (Str ?s))"
    by blast
  ultimately show ?thesis by blast
qed

end
